theory Spec2Isabelle
  imports Main "HOL-Library.AList"
begin

section \<open>The boundary to the python-obd library and to Qt\<close>

text \<open>
  Both programs of the repository (\<^verbatim>\<open>src/main.py\<close>, class \<^verbatim>\<open>OBDMonitor\<close>, and
  \<^verbatim>\<open>src/src/main.py\<close>, class \<^verbatim>\<open>MainWindow\<close>) are glue between a widget tree and the
  python-obd library. The library is not part of the repository, so what a library call
  answers is an input of the model: every operation takes the answers of the calls it
  makes as arguments. A call protected by \<^verbatim>\<open>try\<close> either raises (with the text of
  \<^verbatim>\<open>str(e)\<close>) or returns.
\<close>

datatype 'a outcome = Raises string | Returns 'a

text \<open>An OBD command descriptor, identified by its \<^verbatim>\<open>name\<close> attribute.\<close>

datatype obd_command = Command (cmd_name: string)

text \<open>
  A decoded value as the programs observe it. A Pint quantity has the attributes
  \<^verbatim>\<open>magnitude\<close> and \<^verbatim>\<open>units\<close>; the programs only ever render it, so a
  quantity carries its four renderings: \<^verbatim>\<open>f"{v.magnitude:.1f}"\<close>,
  \<^verbatim>\<open>str(v.magnitude)\<close>, \<^verbatim>\<open>str(v.units)\<close> and \<^verbatim>\<open>str(v)\<close>. Any other value
  (a string, a status object) has neither attribute and carries \<^verbatim>\<open>str(v)\<close>.
\<close>

datatype obd_value =
    Quantity (fmt_1f: string) (str_magnitude: string) (str_units: string) (str_quantity: string)
  | Plain (str_plain: string)

fun has_magnitude :: "obd_value \<Rightarrow> bool" where
  "has_magnitude (Quantity f m u q) = True"
| "has_magnitude (Plain p) = False"

fun has_units :: "obd_value \<Rightarrow> bool" where
  "has_units (Quantity f m u q) = True"
| "has_units (Plain p) = False"

fun py_str :: "obd_value \<Rightarrow> string" where
  "py_str (Quantity f m u q) = q"
| "py_str (Plain p) = p"

text \<open>
  A response of \<^verbatim>\<open>query\<close>: \<^verbatim>\<open>is_null()\<close> holds for a reply that could not be
  decoded, otherwise the response has a value.
\<close>

datatype 'v response = NullResponse | Response (response_value: 'v)

fun is_null :: "'v response \<Rightarrow> bool" where
  "is_null NullResponse = True"
| "is_null (Response v) = False"

text \<open>\<^verbatim>\<open>OBDStatus\<close>: the four connection states, each of which prints as its text.\<close>

datatype obd_status = NOT_CONNECTED | ELM_CONNECTED | OBD_CONNECTED | CAR_CONNECTED

fun str_status :: "obd_status \<Rightarrow> string" where
  "str_status NOT_CONNECTED = ''Not Connected''"
| "str_status ELM_CONNECTED = ''ELM Connected''"
| "str_status OBD_CONNECTED = ''OBD Connected''"
| "str_status CAR_CONNECTED = ''Car Connected''"

text \<open>
  The handle returned by \<^verbatim>\<open>obd.OBD(portstr)\<close>: the port string it was opened with
  (\<open>None\<close> for the auto-connect call without argument) and what \<^verbatim>\<open>status()\<close> answers.
  A handle is a Python object without \<^verbatim>\<open>__bool__\<close>, so it is truthy; the attribute
  holding it is falsy exactly when it is \<^verbatim>\<open>None\<close>.
\<close>

record obd_handle =
  portstr :: "string option"
  status :: obd_status

definition is_connected :: "obd_handle \<Rightarrow> bool" where
  "is_connected h = (status h = CAR_CONNECTED)"

text \<open>The calls a program makes on the library, in the order it makes them.\<close>

datatype lib_call =
    Open "string option"
  | Query obd_command
  | Close
  | AsyncNew
  | AsyncWatch obd_command
  | AsyncStart
  | AsyncStop

text \<open>The message boxes a program shows: kind, title and text.\<close>

datatype dialog =
    Warning string string
  | Critical string string
  | Information string string
  | Question string string

definition newline :: string where
  "newline = [CHR 0x0A]"

text \<open>\<^verbatim>\<open>str(n)\<close> of a natural number, for \<^verbatim>\<open>len(...)\<close> inside an f-string.\<close>

definition digit :: "nat \<Rightarrow> char" where
  "digit d = char_of (48 + d)"

function str_nat :: "nat \<Rightarrow> string" where
  "str_nat n = (if n < 10 then [digit n] else str_nat (n div 10) @ [digit (n mod 10)])"
  by pat_completeness auto
termination
  by (relation "measure (\<lambda>n. n)") auto

section \<open>\<^verbatim>\<open>src/main.py\<close>: the polling monitor \<^verbatim>\<open>OBDMonitor\<close>\<close>

text \<open>
  One entry of \<^verbatim>\<open>self.metric_widgets\<close>: the text of the value label and the command.
\<close>

record metric_widget =
  label :: string
  command :: obd_command

text \<open>
  The monitor's state. The two dictionaries are association lists in insertion order, as
  Python dictionaries are; \<open>timer\<close> is the interval of the running \<^verbatim>\<open>QTimer\<close>, or
  \<open>None\<close> when it is stopped; \<open>console\<close> holds the paragraphs of the console widget;
  \<open>dialogs\<close>, \<open>calls\<close> and \<open>files\<close> record what the monitor has shown, asked of the
  library and written.
\<close>

record obd_monitor =
  connection :: "obd_handle option"
  connected :: bool
  metrics :: "(string \<times> obd_value) list"
  metric_widgets :: "(string \<times> metric_widget) list"
  port_input :: string
  connect_button :: string
  status_label :: string
  status_style :: string
  console :: "string list"
  timer :: "nat option"
  dialogs :: "dialog list"
  calls :: "lib_call list"
  files :: "(string \<times> string) list"

text \<open>
  \<^verbatim>\<open>log\<close> reads the clock and appends one paragraph. Only \<^verbatim>\<open>log\<close> appends to the
  console, so the clock reading of a call is indexed by the number of paragraphs already
  there: \<open>tm k\<close> is the time text read by the \<open>k\<close>-th call.
\<close>

definition log :: "(nat \<Rightarrow> string) \<Rightarrow> string \<Rightarrow> obd_monitor \<Rightarrow> obd_monitor" where
  "log tm message s =
     s\<lparr>console := console s @ [''['' @ tm (length (console s)) @ ''] '' @ message]\<rparr>"

text \<open>The static table of \<^verbatim>\<open>init_ui\<close>.\<close>

definition metrics_table :: "(string \<times> obd_command) list" where
  "metrics_table =
     [(''RPM'', Command ''RPM''),
      (''Speed'', Command ''SPEED''),
      (''Coolant Temp'', Command ''COOLANT_TEMP''),
      (''Intake Temp'', Command ''INTAKE_TEMP''),
      (''Load'', Command ''ENGINE_LOAD''),
      (''Fuel Level'', Command ''FUEL_LEVEL''),
      (''Throttle Pos'', Command ''THROTTLE_POS''),
      (''Timing Advance'', Command ''TIMING_ADVANCE'')]"

text \<open>The loop of \<^verbatim>\<open>init_ui\<close> that fills \<^verbatim>\<open>self.metric_widgets\<close>.\<close>

fun make_widgets ::
  "(string \<times> obd_command) list \<Rightarrow> (string \<times> metric_widget) list \<Rightarrow> (string \<times> metric_widget) list"
where
  "make_widgets [] ws = ws"
| "make_widgets ((name, cmd) # rest) ws =
     make_widgets rest (AList.update name \<lparr>label = ''--'', command = cmd\<rparr> ws)"

text \<open>\<^verbatim>\<open>__init__\<close> followed by \<^verbatim>\<open>init_ui\<close>.\<close>

definition init_ui :: "(nat \<Rightarrow> string) \<Rightarrow> obd_monitor \<Rightarrow> obd_monitor" where
  "init_ui tm s =
     log tm ''Application started''
       (s\<lparr>port_input := '''',
          connect_button := ''Connect'',
          status_label := ''Disconnected'',
          status_style := ''color: red;'',
          metric_widgets := make_widgets metrics_table [],
          console := [],
          timer := None\<rparr>)"

definition init :: "(nat \<Rightarrow> string) \<Rightarrow> obd_monitor" where
  "init tm =
     init_ui tm
       \<lparr>connection = None, connected = False, metrics = [], metric_widgets = [],
        port_input = '''', connect_button = '''', status_label = '''', status_style = '''',
        console = [], timer = None, dialogs = [], calls = [], files = []\<rparr>"

text \<open>
  \<^verbatim>\<open>connect_obd\<close>. \<open>opn\<close> answers \<^verbatim>\<open>obd.OBD(...)\<close>: it raises, or the handle it
  returns reports a status. Everything is inside one \<^verbatim>\<open>try\<close>.
\<close>

definition connect_obd ::
  "(nat \<Rightarrow> string) \<Rightarrow> (string option \<Rightarrow> obd_status outcome) \<Rightarrow> obd_monitor \<Rightarrow> obd_monitor"
where
  "connect_obd tm opn s =
     (let port = port_input s;
          arg = (if port = [] then None else Some port);
          s1 = (if port = [] then log tm ''No port specified, attempting auto-connect...'' s
                else log tm (''Connecting to '' @ port @ ''...'') s);
          s2 = s1\<lparr>calls := calls s1 @ [Open arg]\<rparr>
      in case opn arg of
           Raises e \<Rightarrow>
             (let s3 = log tm (''Error connecting: '' @ e) s2
              in s3\<lparr>dialogs := dialogs s3 @
                     [Critical ''Connection Error'' (''Error connecting to OBD: '' @ e)]\<rparr>)
         | Returns st \<Rightarrow>
             (let s3 = s2\<lparr>connection := Some \<lparr>portstr = arg, status = st\<rparr>\<rparr>
              in if st = CAR_CONNECTED then
                   (log tm ''Successfully connected to vehicle''
                      (s3\<lparr>connected := True,
                          connect_button := ''Disconnect'',
                          status_label := ''Connected'',
                          status_style := ''color: green;''\<rparr>))
                   \<lparr>timer := Some 1000\<rparr>
                 else
                   (let s4 = log tm (''Failed to connect: '' @ str_status st) s3
                    in s4\<lparr>dialogs := dialogs s4 @
                           [Warning ''Connection Error''
                              (''Failed to connect to OBD: '' @ str_status st)]\<rparr>)))"

text \<open>The loop of \<^verbatim>\<open>disconnect_obd\<close> that resets every value label.\<close>

fun reset_labels :: "(string \<times> metric_widget) list \<Rightarrow> (string \<times> metric_widget) list" where
  "reset_labels [] = []"
| "reset_labels ((name, metric) # rest) = (name, metric\<lparr>label := ''--''\<rparr>) # reset_labels rest"

text \<open>
  \<^verbatim>\<open>disconnect_obd\<close>. \<^verbatim>\<open>timer.stop()\<close> and \<^verbatim>\<open>connection.close()\<close> stand outside any
  \<^verbatim>\<open>try\<close>; the library's \<^verbatim>\<open>close\<close> catches its own transport errors, so it returns.
\<close>

definition disconnect_obd :: "(nat \<Rightarrow> string) \<Rightarrow> obd_monitor \<Rightarrow> obd_monitor" where
  "disconnect_obd tm s =
     (let s1 = (case connection s of
                  Some h \<Rightarrow> s\<lparr>timer := None, calls := calls s @ [Close], connection := None\<rparr>
                | None \<Rightarrow> s)
      in log tm ''Disconnected from vehicle''
           (s1\<lparr>connected := False,
               connect_button := ''Connect'',
               status_label := ''Disconnected'',
               status_style := ''color: red;'',
               metric_widgets := reset_labels (metric_widgets s1)\<rparr>))"

definition toggle_connection ::
  "(nat \<Rightarrow> string) \<Rightarrow> (string option \<Rightarrow> obd_status outcome) \<Rightarrow> obd_monitor \<Rightarrow> obd_monitor"
where
  "toggle_connection tm opn s =
     (if connected s then disconnect_obd tm s else connect_obd tm opn s)"

definition none_query_error :: string where
  "none_query_error =
     [CHR 0x27] @ ''NoneType'' @ [CHR 0x27] @ '' object has no attribute '' @
     [CHR 0x27] @ ''query'' @ [CHR 0x27]"

text \<open>
  A method call on \<^verbatim>\<open>self.connection\<close>: on \<^verbatim>\<open>None\<close> Python raises AttributeError,
  otherwise the library answers.
\<close>

definition conn_query ::
  "(obd_command \<Rightarrow> 'v response outcome) \<Rightarrow> obd_handle option \<Rightarrow> obd_command \<Rightarrow> 'v response outcome"
where
  "conn_query q c cmd =
     (case c of
        None \<Rightarrow> Raises none_query_error
      | Some h \<Rightarrow> q cmd)"

definition set_label :: "string \<Rightarrow> string \<Rightarrow> obd_monitor \<Rightarrow> obd_monitor" where
  "set_label name txt s =
     s\<lparr>metric_widgets := AList.map_entry name (\<lambda>d. d\<lparr>label := txt\<rparr>) (metric_widgets s)\<rparr>"

text \<open>The text \<^verbatim>\<open>update_metrics\<close> puts on a value label for a decoded value.\<close>

definition display_text :: "obd_value \<Rightarrow> string" where
  "display_text v =
     (if has_magnitude v then fmt_1f v @ '' '' @ str_units v else py_str v)"

text \<open>One iteration of the loop of \<^verbatim>\<open>update_metrics\<close>: the \<^verbatim>\<open>try\<close> block for one metric.\<close>

definition update_metric ::
  "(nat \<Rightarrow> string) \<Rightarrow> (obd_command \<Rightarrow> obd_value response outcome) \<Rightarrow>
   string \<Rightarrow> obd_command \<Rightarrow> obd_monitor \<Rightarrow> obd_monitor"
where
  "update_metric tm q name cmd s =
     (let s1 = (case connection s of None \<Rightarrow> s | Some h \<Rightarrow> s\<lparr>calls := calls s @ [Query cmd]\<rparr>)
      in case conn_query q (connection s) cmd of
           Raises e \<Rightarrow> set_label name ''ERR'' (log tm (''Error querying '' @ name @ '': '' @ e) s1)
         | Returns response \<Rightarrow>
             if is_null response then set_label name ''N/A'' s1
             else
               (let v = response_value response
                in set_label name (display_text v)
                     (s1\<lparr>metrics := AList.update name v (metrics s1)\<rparr>)))"

fun update_loop ::
  "(nat \<Rightarrow> string) \<Rightarrow> (obd_command \<Rightarrow> obd_value response outcome) \<Rightarrow>
   (string \<times> metric_widget) list \<Rightarrow> obd_monitor \<Rightarrow> obd_monitor"
where
  "update_loop tm q [] s = s"
| "update_loop tm q ((name, data) # rest) s =
     update_loop tm q rest (update_metric tm q name (command data) s)"

definition update_metrics ::
  "(nat \<Rightarrow> string) \<Rightarrow> (obd_command \<Rightarrow> obd_value response outcome) \<Rightarrow> obd_monitor \<Rightarrow> obd_monitor"
where
  "update_metrics tm q s =
     (if \<not> connected s \<or> connection s = None then s
      else update_loop tm q (metric_widgets s) s)"

text \<open>The loop of \<^verbatim>\<open>read_dtc\<close> over the \<^verbatim>\<open>(code, desc)\<close> pairs.\<close>

fun log_codes :: "(nat \<Rightarrow> string) \<Rightarrow> (string \<times> string) list \<Rightarrow> obd_monitor \<Rightarrow> obd_monitor" where
  "log_codes tm [] s = s"
| "log_codes tm ((code, desc) # rest) s =
     log_codes tm rest (log tm (''  '' @ code @ '': '' @ desc) s)"

definition GET_DTC :: obd_command where
  "GET_DTC = Command ''GET_DTC''"

definition CLEAR_DTC :: obd_command where
  "CLEAR_DTC = Command ''CLEAR_DTC''"

definition VIN :: obd_command where
  "VIN = Command ''VIN''"

text \<open>\<^verbatim>\<open>read_dtc\<close>; the value of a \<^verbatim>\<open>GET_DTC\<close> response is a list of pairs.\<close>

definition read_dtc ::
  "(nat \<Rightarrow> string) \<Rightarrow> (obd_command \<Rightarrow> (string \<times> string) list response outcome) \<Rightarrow>
   obd_monitor \<Rightarrow> obd_monitor"
where
  "read_dtc tm q s =
     (if \<not> connected s \<or> connection s = None then
        s\<lparr>dialogs := dialogs s @ [Warning ''Not Connected'' ''Please connect to vehicle first'']\<rparr>
      else
        (let s1 = log tm ''Reading Diagnostic Trouble Codes...'' s;
             s2 = s1\<lparr>calls := calls s1 @ [Query GET_DTC]\<rparr>
         in case conn_query q (connection s) GET_DTC of
              Raises e \<Rightarrow>
                (let s3 = log tm (''Error reading DTCs: '' @ e) s2
                 in s3\<lparr>dialogs := dialogs s3 @
                        [Critical ''DTC Error'' (''Error reading DTCs: '' @ e)]\<rparr>)
            | Returns r \<Rightarrow>
                (case r of
                   NullResponse \<Rightarrow> log tm ''No DTCs returned'' s2
                 | Response codes \<Rightarrow>
                     if codes = [] then log tm ''No DTCs found'' s2
                     else log_codes tm codes
                            (log tm (''Found '' @ str_nat (length codes) @ '' DTCs:'') s2))))"

text \<open>\<^verbatim>\<open>clear_dtc\<close>; \<open>reply\<close> is true when the user answers Yes.\<close>

definition clear_dtc ::
  "(nat \<Rightarrow> string) \<Rightarrow> bool \<Rightarrow> (obd_command \<Rightarrow> obd_value response outcome) \<Rightarrow>
   obd_monitor \<Rightarrow> obd_monitor"
where
  "clear_dtc tm reply q s =
     (if \<not> connected s \<or> connection s = None then
        s\<lparr>dialogs := dialogs s @ [Warning ''Not Connected'' ''Please connect to vehicle first'']\<rparr>
      else
        (let s1 = s\<lparr>dialogs := dialogs s @
                     [Question ''Clear DTCs'' ''Are you sure you want to clear all DTCs?'']\<rparr>
         in if reply then
              (let s2 = log tm ''Clearing DTCs...'' s1;
                   s3 = s2\<lparr>calls := calls s2 @ [Query CLEAR_DTC]\<rparr>
               in case conn_query q (connection s) CLEAR_DTC of
                    Raises e \<Rightarrow>
                      (let s4 = log tm (''Error clearing DTCs: '' @ e) s3
                       in s4\<lparr>dialogs := dialogs s4 @
                              [Critical ''DTC Error'' (''Error clearing DTCs: '' @ e)]\<rparr>)
                  | Returns r \<Rightarrow> log tm ''DTCs cleared successfully'' s3)
            else s1))"

text \<open>One data row of \<^verbatim>\<open>save_metrics\<close>.\<close>

definition csv_row :: "string \<Rightarrow> obd_value \<Rightarrow> string" where
  "csv_row name v =
     (if has_magnitude v \<and> has_units v
      then name @ '','' @ str_magnitude v @ '','' @ str_units v @ newline
      else name @ '','' @ py_str v @ '','' @ newline)"

text \<open>
  The loop of \<^verbatim>\<open>save_metrics\<close>. \<open>wr k\<close> is the error of the \<open>k\<close>-th \<^verbatim>\<open>f.write\<close>
  of the call, if it raises; the header is write number 0. The result is the text written
  so far and the error that stopped the loop, if any.
\<close>

fun write_rows ::
  "(nat \<Rightarrow> string option) \<Rightarrow> nat \<Rightarrow> (string \<times> obd_value) list \<Rightarrow> string \<Rightarrow> string \<times> string option"
where
  "write_rows wr k [] content = (content, None)"
| "write_rows wr k ((name, v) # rest) content =
     (case wr k of
        Some e \<Rightarrow> (content, Some e)
      | None \<Rightarrow> write_rows wr (Suc k) rest (content @ csv_row name v))"

definition save_failed :: "(nat \<Rightarrow> string) \<Rightarrow> string \<Rightarrow> obd_monitor \<Rightarrow> obd_monitor" where
  "save_failed tm e s =
     (let s1 = log tm (''Error saving metrics: '' @ e) s
      in s1\<lparr>dialogs := dialogs s1 @
             [Critical ''Save Error'' (''Error saving metrics: '' @ e)]\<rparr>)"

text \<open>
  \<^verbatim>\<open>save_metrics\<close>. \<open>stamp\<close> is the clock text of the file name, \<open>opn\<close> the error of
  \<^verbatim>\<open>open(filename, 'w')\<close> if it raises. Opening for writing creates or truncates the
  file; leaving the \<^verbatim>\<open>with\<close> block, also by an exception, keeps what was written.
\<close>

definition save_metrics ::
  "(nat \<Rightarrow> string) \<Rightarrow> string \<Rightarrow> (string \<Rightarrow> string option) \<Rightarrow> (nat \<Rightarrow> string option) \<Rightarrow>
   obd_monitor \<Rightarrow> obd_monitor"
where
  "save_metrics tm stamp opn wr s =
     (let filename = ''obd_metrics_'' @ stamp @ ''.csv''
      in case opn filename of
           Some e \<Rightarrow> save_failed tm e s
         | None \<Rightarrow>
             (case wr 0 of
                Some e \<Rightarrow> save_failed tm e (s\<lparr>files := AList.update filename [] (files s)\<rparr>)
              | None \<Rightarrow>
                  (case write_rows wr 1 (metrics s) (''Metric,Value,Unit'' @ newline) of
                     (content, Some e) \<Rightarrow>
                       save_failed tm e (s\<lparr>files := AList.update filename content (files s)\<rparr>)
                   | (content, None) \<Rightarrow>
                       (let s1 = log tm (''Metrics saved to '' @ filename)
                                   (s\<lparr>files := AList.update filename content (files s)\<rparr>)
                        in s1\<lparr>dialogs := dialogs s1 @
                               [Information ''Metrics Saved''
                                  (''Metrics saved to '' @ filename)]\<rparr>))))"

section \<open>\<^verbatim>\<open>src/src/main.py\<close>: the watching window \<^verbatim>\<open>MainWindow\<close>\<close>

definition DEFAULT_HOST :: string where
  "DEFAULT_HOST = ''192.168.0.10''"

definition DEFAULT_PORT :: string where
  "DEFAULT_PORT = ''35000''"

definition DEFAULT_CONNECTION_STRING :: string where
  "DEFAULT_CONNECTION_STRING = DEFAULT_HOST @ '':'' @ DEFAULT_PORT"

text \<open>
  An \<^verbatim>\<open>obd.Async\<close> object of the library: the commands it watches and whether its
  worker thread runs. The window holds a reference to at most one of them; the objects
  themselves live in a store, so that an object the window no longer refers to is still
  there.
\<close>

record async_obj =
  watching :: "obd_command list"
  running :: bool

text \<open>
  The window's state. A button is its enabled flag, a label its text. \<open>current_index\<close>
  is the combo box's current index (\<open>None\<close> for Qt's -1). \<open>data_updated\<close> holds the
  values emitted on the signal of that name and not yet delivered to the slot
  \<^verbatim>\<open>update_data_label\<close>. \<open>auto_connect_pending\<close> is the single-shot timer of the
  constructor. The fields \<open>connection_w\<close>, \<open>port_input_w\<close>, \<open>status_label_w\<close>,
  \<open>dialogs_w\<close> and \<open>calls_w\<close> are the attributes \<^verbatim>\<open>connection\<close>, \<^verbatim>\<open>port_input\<close>
  and \<^verbatim>\<open>status_label\<close> of the window, and its message boxes and library calls.
\<close>

record main_window =
  host :: string
  port :: string
  connection_w :: "obd_handle option"
  async_connection :: "nat option"
  data_log :: "(int \<times> string) list"
  host_input :: string
  port_input_w :: string
  connect_button_enabled :: bool
  disconnect_button_enabled :: bool
  start_button_enabled :: bool
  stop_button_enabled :: bool
  status_label_w :: string
  vin_label :: string
  data_label :: string
  metrics_combo :: "string list"
  current_index :: "nat option"
  data_updated :: "string list"
  auto_connect_pending :: bool
  asyncs :: "async_obj list"
  dialogs_w :: "dialog list"
  calls_w :: "lib_call list"

text \<open>Python's \<^verbatim>\<open>x or d\<close> on an optional string and on a string.\<close>

definition opt_or :: "string option \<Rightarrow> string \<Rightarrow> string" where
  "opt_or x d = (case x of None \<Rightarrow> d | Some v \<Rightarrow> if v = [] then d else v)"

definition str_or :: "string \<Rightarrow> string \<Rightarrow> string" where
  "str_or x d = (if x = [] then d else x)"

text \<open>
  \<^verbatim>\<open>MainWindow.__init__(host, port)\<close>; \<open>auto_connect\<close> is the class attribute
  \<^verbatim>\<open>AUTO_CONNECT\<close> at the time of the call.
\<close>

definition init_window :: "bool \<Rightarrow> string option \<Rightarrow> string option \<Rightarrow> main_window" where
  "init_window auto_connect h p =
     (let host0 = opt_or h DEFAULT_HOST;
          port0 = opt_or p DEFAULT_PORT
      in \<lparr>host = host0, port = port0,
          connection_w = None, async_connection = None, data_log = [],
          host_input = host0, port_input_w = port0,
          connect_button_enabled = True, disconnect_button_enabled = False,
          start_button_enabled = False, stop_button_enabled = False,
          status_label_w = ''Status: Disconnected'', vin_label = ''VIN: N/A'',
          data_label = ''Data: N/A'',
          metrics_combo = [''Select a metric''], current_index = Some 0,
          data_updated = [], auto_connect_pending = auto_connect,
          asyncs = [], dialogs_w = [], calls_w = []\<rparr>)"

text \<open>
  The \<^verbatim>\<open>__main__\<close> block: \<^verbatim>\<open>--no-auto-connect\<close> clears the class attribute, which
  is \<^verbatim>\<open>True\<close> otherwise.
\<close>

definition main :: "string option \<Rightarrow> string option \<Rightarrow> bool \<Rightarrow> main_window" where
  "main arg_host arg_port no_auto_connect =
     init_window (if no_auto_connect then False else True) arg_host arg_port"

text \<open>The combo box operations the window uses, as Qt defines them.\<close>

definition currentText :: "main_window \<Rightarrow> string" where
  "currentText w =
     (case current_index w of
        None \<Rightarrow> []
      | Some i \<Rightarrow> if i < length (metrics_combo w) then metrics_combo w ! i else [])"

definition addItem :: "string \<Rightarrow> main_window \<Rightarrow> main_window" where
  "addItem x w =
     w\<lparr>current_index := (if metrics_combo w = [] then Some 0 else current_index w),
       metrics_combo := metrics_combo w @ [x]\<rparr>"

definition setCurrentIndex :: "nat \<Rightarrow> main_window \<Rightarrow> main_window" where
  "setCurrentIndex i w =
     w\<lparr>current_index := (if i < length (metrics_combo w) then Some i else None)\<rparr>"

fun add_items :: "obd_command list \<Rightarrow> main_window \<Rightarrow> main_window" where
  "add_items [] w = w"
| "add_items (cmd # rest) w = add_items rest (addItem (cmd_name cmd) w)"

text \<open>The connection string \<^verbatim>\<open>connect_to_adapter\<close> builds.\<close>

definition connection_string :: "main_window \<Rightarrow> string" where
  "connection_string w =
     str_or (host_input w) (host w) @ '':'' @ str_or (port_input_w w) (port w)"

text \<open>What the library answers to the calls of \<^verbatim>\<open>connect_to_adapter\<close>.\<close>

record connect_answers =
  open_answer :: "string \<Rightarrow> obd_status outcome"
  supports_answer :: "bool outcome"
  vin_answer :: "obd_value response outcome"
  supported_commands :: "obd_command list outcome"

definition connect_failed :: "string \<Rightarrow> main_window \<Rightarrow> main_window" where
  "connect_failed e w =
     w\<lparr>status_label_w := ''Status: Disconnected'',
       dialogs_w := dialogs_w w @ [Critical ''Error'' (''Connection error: '' @ e)]\<rparr>"

text \<open>The part of \<^verbatim>\<open>connect_to_adapter\<close> that fills the combo box.\<close>

definition populate_combo :: "connect_answers \<Rightarrow> main_window \<Rightarrow> main_window" where
  "populate_combo a w =
     (let w1 = w\<lparr>metrics_combo := [], current_index := None\<rparr>
      in case supported_commands a of
           Raises e \<Rightarrow> connect_failed e w1
         | Returns cmds \<Rightarrow> add_items (filter (\<lambda>cmd. cmd_name cmd \<noteq> ''VIN'') cmds) w1)"

text \<open>The part of \<^verbatim>\<open>connect_to_adapter\<close> that retrieves the VIN.\<close>

definition retrieve_vin :: "connect_answers \<Rightarrow> main_window \<Rightarrow> main_window" where
  "retrieve_vin a w =
     (case supports_answer a of
        Raises e \<Rightarrow> connect_failed e w
      | Returns vin_supported \<Rightarrow>
          if vin_supported then
            (let w1 = w\<lparr>calls_w := calls_w w @ [Query VIN]\<rparr>
             in case vin_answer a of
                  Raises e \<Rightarrow> connect_failed e w1
                | Returns r \<Rightarrow>
                    (case r of
                       NullResponse \<Rightarrow> populate_combo a (w1\<lparr>vin_label := ''VIN: Not Available''\<rparr>)
                     | Response v \<Rightarrow> populate_combo a (w1\<lparr>vin_label := ''VIN: '' @ py_str v\<rparr>)))
          else populate_combo a w)"

definition connect_to_adapter :: "connect_answers \<Rightarrow> main_window \<Rightarrow> main_window" where
  "connect_to_adapter a w =
     (let cs = connection_string w;
          w1 = w\<lparr>status_label_w := ''Status: Connecting...'',
                 calls_w := calls_w w @ [Open (Some cs)]\<rparr>
      in case open_answer a cs of
           Raises e \<Rightarrow> connect_failed e w1
         | Returns st \<Rightarrow>
             (let h = \<lparr>portstr = Some cs, status = st\<rparr>;
                  w2 = w1\<lparr>connection_w := Some h\<rparr>
              in if is_connected h then
                   retrieve_vin a
                     (w2\<lparr>status_label_w := ''Status: Connected to '' @ cs,
                         connect_button_enabled := False,
                         disconnect_button_enabled := True,
                         start_button_enabled := True\<rparr>)
                 else
                   w2\<lparr>status_label_w := ''Status: Connection Failed'',
                      dialogs_w := dialogs_w w2 @
                        [Critical ''Error''
                           (''Failed to connect to the adapter at '' @ cs @ ''.'')]\<rparr>))"

text \<open>The single-shot timer of the constructor fires once.\<close>

definition auto_connect_fires :: "connect_answers \<Rightarrow> main_window \<Rightarrow> main_window" where
  "auto_connect_fires a w =
     (if auto_connect_pending w then connect_to_adapter a (w\<lparr>auto_connect_pending := False\<rparr>)
      else w)"

text \<open>\<^verbatim>\<open>stop()\<close> on the object at an address of the store.\<close>

definition stop_async :: "nat \<Rightarrow> async_obj list \<Rightarrow> async_obj list" where
  "stop_async a objs =
     (if a < length objs then objs[a := (objs ! a)\<lparr>running := False\<rparr>] else objs)"

text \<open>
  The block \<^verbatim>\<open>if self.async_connection: ...stop(); ... = None\<close>, shared by
  \<^verbatim>\<open>stop_monitoring\<close> and \<^verbatim>\<open>disconnect_from_adapter\<close>.
\<close>

definition drop_async :: "main_window \<Rightarrow> main_window" where
  "drop_async w =
     (case async_connection w of
        None \<Rightarrow> w
      | Some a \<Rightarrow>
          w\<lparr>asyncs := stop_async a (asyncs w),
            calls_w := calls_w w @ [AsyncStop],
            async_connection := None\<rparr>)"

definition disconnect_from_adapter :: "main_window \<Rightarrow> main_window" where
  "disconnect_from_adapter w =
     (let w1 = drop_async w;
          w2 = (case connection_w w1 of
                  None \<Rightarrow> w1
                | Some h \<Rightarrow> w1\<lparr>calls_w := calls_w w1 @ [Close], connection_w := None\<rparr>)
      in setCurrentIndex 0
           (w2\<lparr>status_label_w := ''Status: Disconnected'',
               connect_button_enabled := True,
               disconnect_button_enabled := False,
               start_button_enabled := False,
               stop_button_enabled := False,
               vin_label := ''VIN: N/A'',
               data_label := ''Data: N/A''\<rparr>))"

definition stop_monitoring :: "main_window \<Rightarrow> main_window" where
  "stop_monitoring w =
     (drop_async w)
       \<lparr>start_button_enabled := True,
        stop_button_enabled := False,
        data_label := ''Data: N/A''\<rparr>"

text \<open>
  What the library answers to the calls of \<^verbatim>\<open>start_monitoring\<close>: the lookup
  \<^verbatim>\<open>obd.commands[name]\<close>, the constructor \<^verbatim>\<open>obd.Async(port=self.connection.port)\<close>
  (with the attribute read of its argument), \<^verbatim>\<open>watch\<close>, and \<^verbatim>\<open>start\<close>, which
  returns with the worker thread started or, when the library finds its own connection
  down, not started. Each of them is an input, so that the model says what the method does
  for every answer; with python-obd itself the constructor call raises.
\<close>

record start_answers =
  lookup_answer :: "string \<Rightarrow> obd_command outcome"
  async_answer :: "unit outcome"
  watch_answer :: "unit outcome"
  start_answer :: "bool outcome"

definition start_failed :: "string \<Rightarrow> main_window \<Rightarrow> main_window" where
  "start_failed e w =
     stop_monitoring
       (w\<lparr>dialogs_w := dialogs_w w @
            [Critical ''Error'' (''Failed to start monitoring: '' @ e)]\<rparr>)"

definition not_connected :: "main_window \<Rightarrow> bool" where
  "not_connected w =
     (case connection_w w of None \<Rightarrow> True | Some h \<Rightarrow> \<not> is_connected h)"

definition start_monitoring :: "start_answers \<Rightarrow> main_window \<Rightarrow> main_window" where
  "start_monitoring a w =
     (if not_connected w then
        w\<lparr>dialogs_w := dialogs_w w @ [Warning ''Warning'' ''Not connected to the adapter.'']\<rparr>
      else
        (let selected_metric = currentText w
         in if selected_metric = ''Select a metric'' \<or> selected_metric = [] then
              w\<lparr>dialogs_w := dialogs_w w @
                   [Warning ''Warning'' ''Please select a metric to monitor.'']\<rparr>
            else
              (case lookup_answer a selected_metric of
                 Raises e \<Rightarrow> start_failed e w
               | Returns cmd \<Rightarrow>
                   (let w1 = w\<lparr>calls_w := calls_w w @ [AsyncNew]\<rparr>
                    in case async_answer a of
                         Raises e \<Rightarrow> start_failed e w1
                       | Returns u \<Rightarrow>
                           (let n = length (asyncs w1);
                                w2 = w1\<lparr>asyncs := asyncs w1 @ [\<lparr>watching = [], running = False\<rparr>],
                                        async_connection := Some n,
                                        calls_w := calls_w w1 @ [AsyncWatch cmd]\<rparr>
                            in case watch_answer a of
                                 Raises e \<Rightarrow> start_failed e w2
                               | Returns u' \<Rightarrow>
                                   (let w3 = w2\<lparr>asyncs := (asyncs w2)
                                                  [n := \<lparr>watching = [cmd], running = False\<rparr>],
                                                calls_w := calls_w w2 @ [AsyncStart]\<rparr>
                                    in case start_answer a of
                                         Raises e \<Rightarrow> start_failed e w3
                                       | Returns started \<Rightarrow>
                                           w3\<lparr>asyncs := (asyncs w3)
                                                 [n := \<lparr>watching = [cmd], running = started\<rparr>],
                                              start_button_enabled := False,
                                              stop_button_enabled := True\<rparr>))))))"

text \<open>
  The callback \<^verbatim>\<open>on_data_received\<close>; \<open>t\<close> is the reading of \<^verbatim>\<open>time.time()\<close>.
\<close>

definition on_data_received :: "int \<Rightarrow> obd_value response \<Rightarrow> main_window \<Rightarrow> main_window" where
  "on_data_received t response w =
     (if \<not> is_null response then
        (let v = py_str (response_value response)
         in w\<lparr>data_log := data_log w @ [(t, v)],
              data_updated := data_updated w @ [v]\<rparr>)
      else w)"

definition update_data_label :: "string \<Rightarrow> main_window \<Rightarrow> main_window" where
  "update_data_label v w = w\<lparr>data_label := ''Data: '' @ v\<rparr>"

text \<open>The event loop delivers the oldest pending signal to the slot.\<close>

definition deliver :: "main_window \<Rightarrow> main_window" where
  "deliver w =
     (case data_updated w of
        [] \<Rightarrow> w
      | v # rest \<Rightarrow> update_data_label v (w\<lparr>data_updated := rest\<rparr>))"

definition closeEvent :: "main_window \<Rightarrow> main_window" where
  "closeEvent w = disconnect_from_adapter w"

text \<open>A run of the callback over the responses a watcher delivers, oldest first.\<close>

fun callbacks :: "(int \<times> obd_value response) list \<Rightarrow> main_window \<Rightarrow> main_window" where
  "callbacks [] w = w"
| "callbacks ((t, r) # rest) w = callbacks rest (on_data_received t r w)"

section \<open>Notions used to state the properties\<close>

text \<open>
  The command catalog of the monitor: the metric names with their commands, in order,
  without the value labels.
\<close>

definition catalog :: "obd_monitor \<Rightarrow> (string \<times> obd_command) list" where
  "catalog s = map (\<lambda>(name, data). (name, command data)) (metric_widgets s)"

text \<open>Every value label of the monitor shows the given text.\<close>

definition all_labels :: "string \<Rightarrow> obd_monitor \<Rightarrow> bool" where
  "all_labels txt s = list_all (\<lambda>(name, data). label data = txt) (metric_widgets s)"

text \<open>A clock for the examples: the \<open>k\<close>-th reading ends in the digits of \<open>k\<close>.\<close>

definition tm0 :: "nat \<Rightarrow> string" where
  "tm0 k = ''2024-01-01 00:00:0'' @ str_nat k"


text \<open>
  The window is idle: it refers to no watcher and no watcher of the store runs. Callbacks
  are made by the worker thread of a running watcher only.
\<close>

definition idle :: "main_window \<Rightarrow> bool" where
  "idle w = (async_connection w = None \<and> list_all (\<lambda>a. \<not> running a) (asyncs w))"

text \<open>The only watcher that may run is the one the window refers to.\<close>

definition only_referenced_runs :: "main_window \<Rightarrow> bool" where
  "only_referenced_runs w =
     list_all (\<lambda>(i, a). \<not> running a \<or> async_connection w = Some i) (enumerate 0 (asyncs w))"

text \<open>
  An adapter for the examples: it connects, reports three supported commands and answers
  every library call of \<^verbatim>\<open>start_monitoring\<close>.
\<close>

definition answers_ok :: connect_answers where
  "answers_ok =
     \<lparr>open_answer = (\<lambda>cs. Returns CAR_CONNECTED),
      supports_answer = Returns False,
      vin_answer = Returns NullResponse,
      supported_commands = Returns [Command ''RPM'', Command ''VIN'', Command ''SPEED'']\<rparr>"

definition start_ok :: start_answers where
  "start_ok =
     \<lparr>lookup_answer = (\<lambda>n. Returns (Command n)),
      async_answer = Returns (),
      watch_answer = Returns (),
      start_answer = Returns True\<rparr>"

definition connected_window :: main_window where
  "connected_window = connect_to_adapter answers_ok (init_window False None None)"

definition running_window :: main_window where
  "running_window = start_monitoring start_ok connected_window"



text \<open>The monitor after startup and a successful auto-connect.\<close>

definition connected_monitor :: obd_monitor where
  "connected_monitor = connect_obd tm0 (\<lambda>p. Returns CAR_CONNECTED) (init tm0)"



text \<open>A library call raised.\<close>

fun raises :: "'a outcome \<Rightarrow> bool" where
  "raises (Raises e) = True"
| "raises (Returns x) = False"

text \<open>A connection that is lost: every query raises.\<close>

definition lost :: "obd_command \<Rightarrow> obd_value response outcome" where
  "lost cmd = Raises ''connection lost''"

text \<open>
  What one pass of the update loop leaves on the label of a metric and in the stored
  metrics, by the answer to the metric's query.
\<close>

fun shown :: "obd_value response outcome \<Rightarrow> string" where
  "shown (Raises e) = ''ERR''"
| "shown (Returns NullResponse) = ''N/A''"
| "shown (Returns (Response v)) = display_text v"

fun stored :: "obd_value response outcome \<Rightarrow> obd_value option \<Rightarrow> obd_value option" where
  "stored (Raises e) old = old"
| "stored (Returns NullResponse) old = old"
| "stored (Returns (Response v)) old = Some v"

text \<open>
  A vehicle for the examples: RPM is a quantity, SPEED a plain value, the coolant query
  raises and every other reply cannot be decoded.
\<close>

definition sample_query :: "obd_command \<Rightarrow> obd_value response outcome" where
  "sample_query c =
     (if c = Command ''RPM'' then
        Returns (Response (Quantity ''725.0'' ''725.0'' ''rpm'' ''725.0 rpm''))
      else if c = Command ''SPEED'' then Returns (Response (Plain ''fast''))
      else if c = Command ''COOLANT_TEMP'' then Raises ''timeout''
      else Returns NullResponse)"




text \<open>
  The answers of python-obd to the library calls of \<^verbatim>\<open>start_monitoring\<close>. Its class
  \<^verbatim>\<open>OBD\<close> has no attribute \<^verbatim>\<open>port\<close> (and \<^verbatim>\<open>obd.Async\<close> takes \<^verbatim>\<open>portstr\<close>,
  not \<^verbatim>\<open>port\<close>), so \<^verbatim>\<open>obd.Async(port=self.connection.port)\<close> raises an
  AttributeError whenever it is reached.
\<close>

definition no_port_error :: string where
  "no_port_error =
     [CHR 0x27] @ ''OBD'' @ [CHR 0x27] @ '' object has no attribute '' @
     [CHR 0x27] @ ''port'' @ [CHR 0x27]"

definition obd_start_answers :: start_answers where
  "obd_start_answers =
     \<lparr>lookup_answer = (\<lambda>n. Returns (Command n)),
      async_answer = Raises no_port_error,
      watch_answer = Returns (),
      start_answer = Returns True\<rparr>"

text \<open>
  A window in the Running state: connected, it refers to a running watcher for RPM, the
  start control is disabled and the stop control enabled.
\<close>

definition watching_window :: main_window where
  "watching_window =
     connected_window
       \<lparr>async_connection := Some 0,
        start_button_enabled := False,
        stop_button_enabled := True,
        asyncs := [\<lparr>watching = [Command ''RPM''], running = True\<rparr>]\<rparr>"

text \<open>
  What one \<^verbatim>\<open>read_frame\<close> of the spec's Transport gives for a request: the byte
  stream is closed, no framed reply arrives within the deadline, or one raw reply.
\<close>

datatype frame_read = StreamClosed | NoReply | Frame "nat list"

text \<open>
  Modelled from the spec: the Query Engine's \<^verbatim>\<open>query\<close> (section 4.1), which the
  repository imports from python-obd and does not implement. It fails with TransportError
  if the byte stream is closed, with TimeoutError if no framed reply arrives within the
  deadline; on a reply it parses the raw bytes with the command's decoder (\<open>decode\<close>,
  \<open>None\<close> where decoding fails on a malformed frame or an unexpected length), and if
  decoding fails it returns a response with \<^verbatim>\<open>is_null\<close> true rather than raising.
\<close>

definition query ::
  "(obd_command \<Rightarrow> frame_read) \<Rightarrow> (obd_command \<Rightarrow> nat list \<Rightarrow> obd_value option) \<Rightarrow>
   obd_command \<Rightarrow> obd_value response outcome"
where
  "query read_frame decode cmd =
     (case read_frame cmd of
        StreamClosed \<Rightarrow> Raises ''TransportError''
      | NoReply \<Rightarrow> Raises ''TimeoutError''
      | Frame raw \<Rightarrow>
          (case decode cmd raw of
             None \<Rightarrow> Returns NullResponse
           | Some v \<Rightarrow> Returns (Response v)))"

text \<open>
  A transport and decoders for the examples: the RPM reply decodes, the intake
  temperature reply is too short to decode, and no other request is answered.
\<close>

definition sample_read_frame :: "obd_command \<Rightarrow> frame_read" where
  "sample_read_frame cmd =
     (if cmd = Command ''RPM'' then Frame [0x41, 0x0C, 0x0B, 0x54]
      else if cmd = Command ''INTAKE_TEMP'' then Frame [0x41]
      else NoReply)"

definition sample_decode :: "obd_command \<Rightarrow> nat list \<Rightarrow> obd_value option" where
  "sample_decode cmd raw =
     (if cmd = Command ''RPM'' \<and> raw = [0x41, 0x0C, 0x0B, 0x54]
      then Some (Quantity ''725.0'' ''725.0'' ''rpm'' ''725.0 rpm'')
      else None)"

section \<open>The command catalog is fixed\<close>

lemma catalog_log: "catalog (log tm m s) = catalog s"
  by (simp add: catalog_def log_def)

lemma map_entry_label:
  "map (\<lambda>(name, data). (name, command data)) (AList.map_entry k (\<lambda>d. d\<lparr>label := t\<rparr>) ws) =
   map (\<lambda>(name, data). (name, command data)) ws"
  by (induction ws) auto

lemma catalog_set_label: "catalog (set_label k t s) = catalog s"
  by (simp add: catalog_def set_label_def map_entry_label)

lemma catalog_update_metric: "catalog (update_metric tm q k c s) = catalog s"
  by (simp add: update_metric_def catalog_set_label catalog_log Let_def
        split: outcome.splits option.splits)
     (simp_all add: catalog_def)

lemma catalog_update_loop: "catalog (update_loop tm q ws s) = catalog s"
  by (induction ws arbitrary: s) (auto simp: catalog_update_metric)

lemma catalog_reset_labels:
  "map (\<lambda>(name, data). (name, command data)) (reset_labels ws) =
   map (\<lambda>(name, data). (name, command data)) ws"
  by (induction ws) auto

lemma catalog_log_codes: "catalog (log_codes tm cs s) = catalog s"
  by (induction cs arbitrary: s) (auto simp: catalog_log)

lemma catalog_init: "catalog (init tm) = metrics_table"
  by (simp add: init_def init_ui_def catalog_log) (simp add: catalog_def metrics_table_def)

lemma catalog_connect_obd: "catalog (connect_obd tm opn s) = catalog s"
  by (simp add: connect_obd_def Let_def catalog_def log_def split: outcome.splits)

lemma catalog_disconnect_obd: "catalog (disconnect_obd tm s) = catalog s"
  by (simp add: disconnect_obd_def Let_def catalog_def log_def catalog_reset_labels
        split: option.splits)

lemma catalog_update_metrics: "catalog (update_metrics tm q s) = catalog s"
  by (simp add: update_metrics_def catalog_update_loop)

lemma catalog_read_dtc: "catalog (read_dtc tm dq s) = catalog s"
  by (simp add: read_dtc_def Let_def catalog_log catalog_log_codes
        split: outcome.splits response.splits)
     (simp_all add: catalog_def log_def)

lemma catalog_clear_dtc: "catalog (clear_dtc tm reply q s) = catalog s"
  by (simp add: clear_dtc_def Let_def catalog_log split: outcome.splits)
     (simp_all add: catalog_def log_def)

lemma catalog_save_metrics: "catalog (save_metrics tm stamp opn wr s) = catalog s"
  by (simp add: save_metrics_def save_failed_def Let_def catalog_log
        split: option.splits prod.splits)
     (simp_all add: catalog_def log_def)

text \<open>
  Claim C7. The command catalog is created at startup from the static table of
  \<^verbatim>\<open>init_ui\<close> and no operation of the monitor (connect, disconnect, the toggle between
  them, the periodic metric update, reading and clearing trouble codes, saving) changes
  it: the metric names, their order and the command of each name are the same after the
  operation as before. What an operation changes in \<^verbatim>\<open>metric_widgets\<close> is the text of
  the value labels only.
\<close>

theorem catalog_never_mutated:
  "catalog (init tm) = metrics_table
   \<and> catalog (connect_obd tm opn s) = catalog s
   \<and> catalog (disconnect_obd tm s) = catalog s
   \<and> catalog (toggle_connection tm opn s) = catalog s
   \<and> catalog (update_metrics tm q s) = catalog s
   \<and> catalog (read_dtc tm dq s) = catalog s
   \<and> catalog (clear_dtc tm reply q s) = catalog s
   \<and> catalog (save_metrics tm stamp fopn wr s) = catalog s"
  by (simp add: catalog_init catalog_connect_obd catalog_disconnect_obd toggle_connection_def
        catalog_update_metrics catalog_read_dtc catalog_clear_dtc catalog_save_metrics)

section \<open>Operations on a monitor that is not connected\<close>

lemma init_fields:
  "connection (init tm) = None" "connected (init tm) = False" "metrics (init tm) = []"
  "calls (init tm) = []" "dialogs (init tm) = []" "timer (init tm) = None"
  "console (init tm) = [''['' @ tm 0 @ ''] Application started'']"
  "port_input (init tm) = []" "files (init tm) = []"
  by (simp_all add: init_def init_ui_def log_def)

text \<open>
  Claim C9. When the monitor is not connected (\<^verbatim>\<open>connected\<close> is false or
  \<^verbatim>\<open>connection\<close> is \<^verbatim>\<open>None\<close>), \<^verbatim>\<open>update_metrics\<close> returns at once and changes
  nothing, and \<^verbatim>\<open>read_dtc\<close> and \<^verbatim>\<open>clear_dtc\<close> only show the warning box: none of
  the three issues a query or any other call on the connection (the record of library
  calls is unchanged), and the stored metrics stay as they are.
\<close>

theorem not_connected_is_inert:
  assumes "\<not> connected s \<or> connection s = None"
  shows "update_metrics tm q s = s
       \<and> read_dtc tm dq s =
           s\<lparr>dialogs := dialogs s @ [Warning ''Not Connected'' ''Please connect to vehicle first'']\<rparr>
       \<and> clear_dtc tm reply q s =
           s\<lparr>dialogs := dialogs s @ [Warning ''Not Connected'' ''Please connect to vehicle first'']\<rparr>
       \<and> calls (update_metrics tm q s) = calls s
       \<and> calls (read_dtc tm dq s) = calls s
       \<and> calls (clear_dtc tm reply q s) = calls s
       \<and> metrics (update_metrics tm q s) = metrics s
       \<and> metrics (read_dtc tm dq s) = metrics s
       \<and> metrics (clear_dtc tm reply q s) = metrics s"
  using assms by (auto simp: update_metrics_def read_dtc_def clear_dtc_def)

theorem not_connected_is_inert_witness:
  "connection (init tm0) = None
   \<and> update_metrics tm0 (\<lambda>c. Raises ''unreachable'') (init tm0) = init tm0
   \<and> calls (read_dtc tm0 (\<lambda>c. Raises ''unreachable'') (init tm0)) = []
   \<and> calls (clear_dtc tm0 True (\<lambda>c. Raises ''unreachable'') (init tm0)) = []
   \<and> metrics (read_dtc tm0 (\<lambda>c. Raises ''unreachable'') (init tm0)) = []"
  using not_connected_is_inert [of "init tm0" tm0 "\<lambda>c. Raises ''unreachable''"
      "\<lambda>c. Raises ''unreachable''" True]
  by (simp add: init_fields)

section \<open>The watch callback\<close>

lemma on_data_received_null: "is_null r \<Longrightarrow> on_data_received t r w = w"
  by (simp add: on_data_received_def)

lemma data_log_callbacks:
  "data_log (callbacks rs w) = data_log w @ [(t, py_str v). (t, Response v) \<leftarrow> rs]"
proof (induction rs arbitrary: w)
  case Nil
  then show ?case by simp
next
  case (Cons x rs)
  obtain t r where x: "x = (t, r)" by (cases x)
  show ?case
    by (cases r) (simp_all add: x Cons.IH on_data_received_def Let_def)
qed

lemma data_updated_callbacks:
  "data_updated (callbacks rs w) = data_updated w @ [py_str v. (t, Response v) \<leftarrow> rs]"
proof (induction rs arbitrary: w)
  case Nil
  then show ?case by simp
next
  case (Cons x rs)
  obtain t r where x: "x = (t, r)" by (cases x)
  show ?case
    by (cases r) (simp_all add: x Cons.IH on_data_received_def Let_def)
qed

lemma data_label_callbacks: "data_label (callbacks rs w) = data_label w"
proof (induction rs arbitrary: w)
  case Nil
  then show ?case by simp
next
  case (Cons x rs)
  obtain t r where x: "x = (t, r)" by (cases x)
  show ?case by (simp add: x Cons.IH on_data_received_def Let_def)
qed

text \<open>
  Claim C8. A call of the watch callback \<^verbatim>\<open>on_data_received\<close> with a null response
  leaves the window as it is: the data log and the displayed value are unchanged and no
  update signal is emitted. A call with a non-null response appends exactly one pair
  (timestamp, text of the value) to \<^verbatim>\<open>data_log\<close> and emits that text once. Over any
  run of callbacks the log therefore grows by the pairs of the non-null responses, in the
  order of the calls, and the callback itself never writes the data label.
\<close>

theorem on_data_received_log:
  "(if is_null r then on_data_received t r w = w
    else on_data_received t r w =
           w\<lparr>data_log := data_log w @ [(t, py_str (response_value r))],
             data_updated := data_updated w @ [py_str (response_value r)]\<rparr>)
   \<and> data_log (callbacks rs w) = data_log w @ [(t, py_str v). (t, Response v) \<leftarrow> rs]
   \<and> data_updated (callbacks rs w) = data_updated w @ [py_str v. (t, Response v) \<leftarrow> rs]
   \<and> data_label (callbacks rs w) = data_label w"
  by (simp add: data_log_callbacks data_updated_callbacks data_label_callbacks
        on_data_received_def Let_def)

section \<open>Starting a watcher while one is active\<close>

lemma connected_window_eval:
  "connected_window =
     \<lparr>host = ''192.168.0.10'', port = ''35000'',
      connection_w = Some \<lparr>portstr = Some ''192.168.0.10:35000'', status = CAR_CONNECTED\<rparr>,
      async_connection = None, data_log = [],
      host_input = ''192.168.0.10'', port_input_w = ''35000'',
      connect_button_enabled = False, disconnect_button_enabled = True,
      start_button_enabled = True, stop_button_enabled = False,
      status_label_w = ''Status: Connected to 192.168.0.10:35000'', vin_label = ''VIN: N/A'',
      data_label = ''Data: N/A'',
      metrics_combo = [''RPM'', ''SPEED''], current_index = Some 0,
      data_updated = [], auto_connect_pending = False,
      asyncs = [], dialogs_w = [], calls_w = [Open (Some ''192.168.0.10:35000'')]\<rparr>"
  by (simp add: connected_window_def connect_to_adapter_def init_window_def answers_ok_def
        connection_string_def str_or_def opt_or_def DEFAULT_HOST_def DEFAULT_PORT_def
        is_connected_def retrieve_vin_def populate_combo_def addItem_def Let_def)

lemma running_window_eval:
  "running_window =
     connected_window
       \<lparr>async_connection := Some 0,
        start_button_enabled := False, stop_button_enabled := True,
        asyncs := [\<lparr>watching = [Command ''RPM''], running = True\<rparr>],
        calls_w := [Open (Some ''192.168.0.10:35000''), AsyncNew,
                    AsyncWatch (Command ''RPM''), AsyncStart]\<rparr>"
  by (simp add: running_window_def start_monitoring_def connected_window_eval start_ok_def
        not_connected_def is_connected_def currentText_def Let_def)

lemma watching_window_eval:
  "watching_window =
     \<lparr>host = ''192.168.0.10'', port = ''35000'',
      connection_w = Some \<lparr>portstr = Some ''192.168.0.10:35000'', status = CAR_CONNECTED\<rparr>,
      async_connection = Some 0, data_log = [],
      host_input = ''192.168.0.10'', port_input_w = ''35000'',
      connect_button_enabled = False, disconnect_button_enabled = True,
      start_button_enabled = False, stop_button_enabled = True,
      status_label_w = ''Status: Connected to 192.168.0.10:35000'', vin_label = ''VIN: N/A'',
      data_label = ''Data: N/A'',
      metrics_combo = [''RPM'', ''SPEED''], current_index = Some 0,
      data_updated = [], auto_connect_pending = False,
      asyncs = [\<lparr>watching = [Command ''RPM''], running = True\<rparr>], dialogs_w = [],
      calls_w = [Open (Some ''192.168.0.10:35000'')]\<rparr>"
  by (simp add: watching_window_def connected_window_eval)





section \<open>Starting and stopping the watch loop\<close>


lemma only_referenced_runs_iff:
  "only_referenced_runs w \<longleftrightarrow>
     (\<forall>i < length (asyncs w). running (asyncs w ! i) \<longrightarrow> async_connection w = Some i)"
  by (auto simp: only_referenced_runs_def list_all_iff in_set_enumerate_eq)

lemma idle_iff:
  "idle w \<longleftrightarrow> async_connection w = None \<and> (\<forall>i < length (asyncs w). \<not> running (asyncs w ! i))"
  by (auto simp: idle_def list_all_length)

lemma idle_drop_async: "only_referenced_runs w \<Longrightarrow> idle (drop_async w)"
  by (auto simp: only_referenced_runs_iff idle_iff drop_async_def stop_async_def nth_list_update
        split: option.splits)

lemma idle_stop_monitoring: "only_referenced_runs w \<Longrightarrow> idle (stop_monitoring w)"
  using idle_drop_async [of w] by (simp add: stop_monitoring_def idle_def)

lemma idle_only_referenced: "idle w \<Longrightarrow> only_referenced_runs w"
  by (simp add: idle_iff only_referenced_runs_iff)

lemma idle_start_failed: "only_referenced_runs w \<Longrightarrow> idle (start_failed e w)"
  using idle_stop_monitoring [of "w\<lparr>dialogs_w := dialogs_w w @ [Critical ''Error'' (''Failed to start monitoring: '' @ e)]\<rparr>"]
  by (simp add: start_failed_def only_referenced_runs_def)

lemma only_referenced_start_failed:
  "only_referenced_runs w \<Longrightarrow> only_referenced_runs (start_failed e w)"
  by (rule idle_only_referenced) (rule idle_start_failed)

lemma only_referenced_start_monitoring:
  assumes "idle w"
  shows "only_referenced_runs (start_monitoring a w)"
  using assms
  by (auto simp: only_referenced_runs_iff idle_iff start_monitoring_def Let_def start_failed_def
        stop_monitoring_def drop_async_def stop_async_def nth_append nth_list_update
        split: outcome.splits)

lemma stop_monitoring_leads_to_idle:
  assumes "only_referenced_runs w"
  shows "idle (stop_monitoring w)
       \<and> async_connection (stop_monitoring w) = None
       \<and> start_button_enabled (stop_monitoring w)
       \<and> \<not> stop_button_enabled (stop_monitoring w)
       \<and> data_label (stop_monitoring w) = ''Data: N/A''
       \<and> data_log (stop_monitoring w) = data_log w"
proof -
  have i: "idle (stop_monitoring w)" using assms by (rule idle_stop_monitoring)
  have "data_log (stop_monitoring w) = data_log w"
    by (simp add: stop_monitoring_def drop_async_def split: option.splits)
  then show ?thesis
    using i by (simp add: idle_def) (simp add: stop_monitoring_def)
qed

text \<open>
  Claim C3 (the watch loop follows Idle, start, Running, stop, Idle), at the input where
  the code departs from it. In an idle window that is connected and has a metric
  selected, when the constructor call \<^verbatim>\<open>obd.Async(port=self.connection.port)\<close> raises,
  as it does with python-obd, \<^verbatim>\<open>start_monitoring\<close> does not reach Running: the
  exception is raised before \<^verbatim>\<open>async_connection\<close> is assigned, the box of a failed
  start is shown and \<^verbatim>\<open>stop_monitoring\<close> runs, so that the window is idle again, with
  \<^verbatim>\<open>async_connection\<close> \<^verbatim>\<open>None\<close>, the start control enabled and the stop control
  disabled; \<^verbatim>\<open>watch\<close> and \<^verbatim>\<open>start\<close> are never called, no watcher is created and
  the data log stays as it was.
\<close>

theorem start_monitoring_stays_idle:
  assumes "idle w" and "\<not> not_connected w"
    and "currentText w \<noteq> ''Select a metric''"
    and "currentText w \<noteq> []"
    and "lookup_answer a (currentText w) = Returns cmd"
    and "async_answer a = Raises e"
  shows "idle (start_monitoring a w)
       \<and> async_connection (start_monitoring a w) = None
       \<and> asyncs (start_monitoring a w) = asyncs w
       \<and> calls_w (start_monitoring a w) = calls_w w @ [AsyncNew]
       \<and> dialogs_w (start_monitoring a w) =
           dialogs_w w @ [Critical ''Error'' (''Failed to start monitoring: '' @ e)]
       \<and> start_button_enabled (start_monitoring a w)
       \<and> \<not> stop_button_enabled (start_monitoring a w)
       \<and> data_label (start_monitoring a w) = ''Data: N/A''
       \<and> data_log (start_monitoring a w) = data_log w"
  using assms
  by (simp add: start_monitoring_def Let_def start_failed_def stop_monitoring_def
        drop_async_def idle_def)

theorem start_monitoring_stays_idle_witness:
  "idle connected_window
   \<and> start_monitoring obd_start_answers connected_window =
       connected_window
         \<lparr>calls_w := [Open (Some ''192.168.0.10:35000''), AsyncNew],
          dialogs_w := [Critical ''Error'' (''Failed to start monitoring: '' @ no_port_error)]\<rparr>
   \<and> idle (start_monitoring obd_start_answers connected_window)"
proof -
  have h: "idle connected_window" "\<not> not_connected connected_window"
    "currentText connected_window \<noteq> ''Select a metric''"
    "currentText connected_window \<noteq> []"
    "lookup_answer obd_start_answers (currentText connected_window) = Returns (Command ''RPM'')"
    "async_answer obd_start_answers = Raises no_port_error"
    by (simp_all add: idle_def connected_window_eval not_connected_def is_connected_def
        currentText_def obd_start_answers_def)
  have e: "start_monitoring obd_start_answers connected_window =
       connected_window
         \<lparr>calls_w := [Open (Some ''192.168.0.10:35000''), AsyncNew],
          dialogs_w := [Critical ''Error'' (''Failed to start monitoring: '' @ no_port_error)]\<rparr>"
    by (simp add: connected_window_eval start_monitoring_def obd_start_answers_def
        not_connected_def is_connected_def currentText_def Let_def
        start_failed_def stop_monitoring_def drop_async_def)
  show ?thesis
    using h(1) e start_monitoring_stays_idle [OF h] by simp
qed


section \<open>The connection string\<close>


lemma calls_w_add_items: "calls_w (add_items cs w) = calls_w w"
  by (induction cs arbitrary: w) (auto simp: addItem_def)

lemma calls_w_populate_combo: "calls_w (populate_combo a w) = calls_w w"
  by (simp add: populate_combo_def Let_def connect_failed_def calls_w_add_items
        split: outcome.splits)

lemma calls_w_retrieve_vin:
  "calls_w (retrieve_vin a w) = calls_w w \<or> calls_w (retrieve_vin a w) = calls_w w @ [Query VIN]"
  by (simp add: retrieve_vin_def Let_def connect_failed_def calls_w_populate_combo
        split: outcome.splits response.splits)

lemma retrieve_vin_nth:
  "n < length (calls_w w) \<Longrightarrow> calls_w (retrieve_vin a w) ! n = calls_w w ! n"
  using calls_w_retrieve_vin [of a w] by (auto simp: nth_append)

lemma opened_with_connection_string:
  "calls_w (connect_to_adapter a w) ! length (calls_w w) = Open (Some (connection_string w))"
  by (simp add: connect_to_adapter_def Let_def connect_failed_def retrieve_vin_nth
        split: outcome.splits)

text \<open>
  Claim C5 as stated (an empty input field falls back to the module-level default) does
  not hold: a window constructed with the host 10.0.0.5 whose host field has been emptied
  connects to 10.0.0.5:35000, not to the default connection string.
\<close>

theorem connection_string_fallback_counterexample:
  "connection_string ((init_window True (Some ''10.0.0.5'') None)\<lparr>host_input := []\<rparr>) =
     ''10.0.0.5:35000''
   \<and> connection_string ((init_window True (Some ''10.0.0.5'') None)\<lparr>host_input := []\<rparr>) \<noteq>
     DEFAULT_CONNECTION_STRING"
  by (simp add: connection_string_def init_window_def str_or_def opt_or_def
        DEFAULT_CONNECTION_STRING_def DEFAULT_HOST_def DEFAULT_PORT_def Let_def)

text \<open>
  Claim C5, amended. The connection string of a connect request has the shape
  host:port, built from the host and port input fields, and it is the string the library
  is opened with. An empty input field falls back to the window's own \<^verbatim>\<open>host\<close> or
  \<^verbatim>\<open>port\<close>: the constructor argument when one was given and is not empty, and
  otherwise the module-level default (192.168.0.10 and 35000, which also fill the input
  fields at startup). A window constructed without arguments therefore uses
  192.168.0.10:35000 when both fields are empty. The auto-connect flag, cleared by
  \<^verbatim>\<open>--no-auto-connect\<close>, decides whether the window connects at startup.
\<close>

theorem connection_string_shape:
  "connection_string w =
     (if host_input w = [] then host w else host_input w) @ '':'' @
     (if port_input_w w = [] then port w else port_input_w w)
   \<and> calls_w (connect_to_adapter a w) ! length (calls_w w) = Open (Some (connection_string w))
   \<and> host (init_window ac h p) =
       (case h of None \<Rightarrow> DEFAULT_HOST | Some x \<Rightarrow> if x = [] then DEFAULT_HOST else x)
   \<and> port (init_window ac h p) =
       (case p of None \<Rightarrow> DEFAULT_PORT | Some x \<Rightarrow> if x = [] then DEFAULT_PORT else x)
   \<and> host_input (init_window ac h p) = host (init_window ac h p)
   \<and> port_input_w (init_window ac h p) = port (init_window ac h p)
   \<and> connection_string ((init_window ac None None)\<lparr>host_input := x, port_input_w := y\<rparr>) =
       (if x = [] then ''192.168.0.10'' else x) @ '':'' @ (if y = [] then ''35000'' else y)
   \<and> auto_connect_pending (main h p no_auto) = (if no_auto then False else True)
   \<and> auto_connect_fires a w =
       (if auto_connect_pending w then connect_to_adapter a (w\<lparr>auto_connect_pending := False\<rparr>)
        else w)"
  by (simp add: opened_with_connection_string auto_connect_fires_def)
     (simp add: connection_string_def init_window_def str_or_def opt_or_def main_def
        DEFAULT_HOST_def DEFAULT_PORT_def Let_def split: option.splits)

theorem connection_string_shape_witness:
  "connection_string ((init_window True None None)\<lparr>host_input := [], port_input_w := []\<rparr>) =
     ''192.168.0.10:35000''
   \<and> connection_string ((init_window True None None)\<lparr>host_input := ''10.1.1.1'', port_input_w := ''23''\<rparr>) =
     ''10.1.1.1:23''
   \<and> host (init_window True (Some ''10.0.0.5'') None) = ''10.0.0.5''
   \<and> calls_w (connect_to_adapter answers_ok (init_window True None None)) ! 0 =
       Open (Some ''192.168.0.10:35000'')"
  using connection_string_shape [of "init_window True None None" answers_ok True "Some ''10.0.0.5''" None "[]" "[]" True]
    connection_string_shape [of "init_window True None None" answers_ok True None None "''10.1.1.1''" "''23''" True]
  by (simp add: init_window_def opt_or_def DEFAULT_HOST_def DEFAULT_PORT_def Let_def
        connection_string_def str_or_def)


section \<open>Disconnecting\<close>

lemma connected_monitor_fields:
  "connection connected_monitor = Some \<lparr>portstr = None, status = CAR_CONNECTED\<rparr>"
  "connected connected_monitor = True"
  "timer connected_monitor = Some 1000"
  "calls connected_monitor = [Open None]"
  "dialogs connected_monitor = []"
  "metrics connected_monitor = []"
  "length (console connected_monitor) = 3"
  "map fst (metric_widgets connected_monitor) = map fst metrics_table"
  by (simp_all add: connected_monitor_def connect_obd_def init_def init_ui_def log_def
        Let_def metrics_table_def)

lemma log_fields:
  "connection (log tm m s) = connection s" "connected (log tm m s) = connected s"
  "metrics (log tm m s) = metrics s" "metric_widgets (log tm m s) = metric_widgets s"
  "timer (log tm m s) = timer s" "dialogs (log tm m s) = dialogs s"
  "calls (log tm m s) = calls s" "files (log tm m s) = files s"
  "length (console (log tm m s)) = Suc (length (console s))"
  by (simp_all add: log_def)

lemma log_codes_fields:
  "timer (log_codes tm cs s) = timer s" "connection (log_codes tm cs s) = connection s"
  by (induction cs arbitrary: s) (auto simp: log_fields)

lemma timer_needs_connection:
  "timer (init tm) = None"
  "timer s = None \<or> connection s \<noteq> None \<Longrightarrow>
     timer (connect_obd tm opn s) = None \<or> connection (connect_obd tm opn s) \<noteq> None"
  "timer (disconnect_obd tm s) = None \<or> connection s = None"
  "timer (update_metric tm q name cmd s) = timer s"
  "connection (update_metric tm q name cmd s) = connection s"
  "timer (read_dtc tm dq s) = timer s" "connection (read_dtc tm dq s) = connection s"
  "timer (clear_dtc tm reply q s) = timer s" "connection (clear_dtc tm reply q s) = connection s"
  "timer (save_metrics tm stamp fopn wr s) = timer s"
  "connection (save_metrics tm stamp fopn wr s) = connection s"
  by (auto simp: init_def init_ui_def log_fields connect_obd_def disconnect_obd_def
        update_metric_def set_label_def read_dtc_def log_codes_fields clear_dtc_def
        save_metrics_def save_failed_def Let_def
        split: outcome.splits option.splits prod.splits response.splits)

lemma reset_labels_idem: "reset_labels (reset_labels ws) = reset_labels ws"
  by (induction ws) auto

lemma reset_labels_all: "list_all (\<lambda>(name, data). label data = ''--'') (reset_labels ws)"
  by (induction ws) auto

lemma disconnect_obd_twice:
  "disconnect_obd tm (disconnect_obd tm s) =
     (disconnect_obd tm s)
       \<lparr>console := console (disconnect_obd tm s) @
          [''['' @ tm (length (console (disconnect_obd tm s))) @ ''] Disconnected from vehicle'']\<rparr>"
  by (simp add: disconnect_obd_def Let_def log_def reset_labels_idem split: option.splits)

lemma setCurrentIndex_fields:
  "metrics_combo (setCurrentIndex i w) = metrics_combo w"
  "connection_w (setCurrentIndex i w) = connection_w w"
  "async_connection (setCurrentIndex i w) = async_connection w"
  "calls_w (setCurrentIndex i w) = calls_w w"
  "asyncs (setCurrentIndex i w) = asyncs w"
  by (simp_all add: setCurrentIndex_def)

lemma disconnect_from_adapter_twice:
  "disconnect_from_adapter (disconnect_from_adapter w) = disconnect_from_adapter w"
  by (simp add: disconnect_from_adapter_def drop_async_def setCurrentIndex_def Let_def
        split: option.splits)

lemma idle_disconnect_from_adapter:
  "only_referenced_runs w \<Longrightarrow> idle (disconnect_from_adapter w)"
  using idle_drop_async [of w]
  by (simp add: disconnect_from_adapter_def Let_def idle_def setCurrentIndex_def
        split: option.splits)

lemma disconnect_from_adapter_library:
  "asyncs (disconnect_from_adapter w) =
     (case async_connection w of None \<Rightarrow> asyncs w | Some i \<Rightarrow> stop_async i (asyncs w))"
  "calls_w (disconnect_from_adapter w) =
     calls_w w @ (case async_connection w of None \<Rightarrow> [] | Some i \<Rightarrow> [AsyncStop]) @
     (case connection_w w of None \<Rightarrow> [] | Some h \<Rightarrow> [Close])"
  by (simp_all add: disconnect_from_adapter_def drop_async_def setCurrentIndex_def Let_def
        split: option.splits)

text \<open>
  Claim C10 as stated (disconnecting twice in a row yields the same state as
  disconnecting once) does not hold of \<^verbatim>\<open>disconnect_obd\<close>: every call logs, so the
  console of the connected monitor has four paragraphs after one disconnect and five
  after two.
\<close>

theorem disconnect_twice_counterexample:
  "length (console (disconnect_obd tm0 connected_monitor)) = 4
   \<and> length (console (disconnect_obd tm0 (disconnect_obd tm0 connected_monitor))) = 5
   \<and> disconnect_obd tm0 (disconnect_obd tm0 connected_monitor) \<noteq>
       disconnect_obd tm0 connected_monitor"
proof -
  have l: "length (console (disconnect_obd tm s)) = Suc (length (console s))" for tm s
    by (simp add: disconnect_obd_def Let_def log_def split: option.splits)
  have a: "length (console (disconnect_obd tm0 connected_monitor)) = 4"
    by (simp add: l connected_monitor_fields)
  have b: "length (console (disconnect_obd tm0 (disconnect_obd tm0 connected_monitor))) = 5"
    by (simp add: l connected_monitor_fields)
  have "disconnect_obd tm0 (disconnect_obd tm0 connected_monitor) \<noteq>
       disconnect_obd tm0 connected_monitor"
  proof
    assume "disconnect_obd tm0 (disconnect_obd tm0 connected_monitor) =
       disconnect_obd tm0 connected_monitor"
    then have "length (console (disconnect_obd tm0 (disconnect_obd tm0 connected_monitor))) =
       length (console (disconnect_obd tm0 connected_monitor))"
      by simp
    then show False using a b by simp
  qed
  then show ?thesis using a b by simp
qed

text \<open>
  Claim C10, amended. Disconnecting is safe without a connection and idempotent up to the
  log. In every state the monitor can reach (the timer runs only while there is a
  connection), \<^verbatim>\<open>disconnect_obd\<close> ends with \<^verbatim>\<open>connected\<close> false, \<^verbatim>\<open>connection\<close>
  \<^verbatim>\<open>None\<close>, the timer stopped, every value label reset to the placeholder and the
  button and status in their disconnected configuration; it calls \<^verbatim>\<open>close\<close> exactly
  when there was a connection, so without one it performs no connection operation; and a
  second \<^verbatim>\<open>disconnect_obd\<close> yields the state of the first except for one more
  paragraph \<^verbatim>\<open>Disconnected from vehicle\<close> in the console, which every call appends.
  For the window, \<^verbatim>\<open>disconnect_from_adapter\<close> twice is exactly
  \<^verbatim>\<open>disconnect_from_adapter\<close> once; it stops the watcher \<^verbatim>\<open>async_connection\<close>
  refers to and closes the connection, each exactly when there is one, so that monitoring
  is stopped (no watcher runs, where only the referenced one could), and it leaves the
  controls and labels in their disconnected configuration.
\<close>

theorem disconnect_twice:
  assumes "timer s = None \<or> connection s \<noteq> None"
  shows "connected (disconnect_obd tm s) = False
       \<and> connection (disconnect_obd tm s) = None
       \<and> timer (disconnect_obd tm s) = None
       \<and> all_labels ''--'' (disconnect_obd tm s)
       \<and> connect_button (disconnect_obd tm s) = ''Connect''
       \<and> status_label (disconnect_obd tm s) = ''Disconnected''
       \<and> status_style (disconnect_obd tm s) = ''color: red;''
       \<and> (if connection s = None then calls (disconnect_obd tm s) = calls s
           else calls (disconnect_obd tm s) = calls s @ [Close])
       \<and> disconnect_obd tm (disconnect_obd tm s) =
           (disconnect_obd tm s)
             \<lparr>console := console (disconnect_obd tm s) @
                [''['' @ tm (length (console (disconnect_obd tm s))) @
                 ''] Disconnected from vehicle'']\<rparr>
       \<and> disconnect_from_adapter (disconnect_from_adapter w) = disconnect_from_adapter w
       \<and> connection_w (disconnect_from_adapter w) = None
       \<and> async_connection (disconnect_from_adapter w) = None
       \<and> asyncs (disconnect_from_adapter w) =
           (case async_connection w of None \<Rightarrow> asyncs w | Some i \<Rightarrow> stop_async i (asyncs w))
       \<and> (only_referenced_runs w \<longrightarrow> idle (disconnect_from_adapter w))
       \<and> calls_w (disconnect_from_adapter w) =
           calls_w w @ (case async_connection w of None \<Rightarrow> [] | Some i \<Rightarrow> [AsyncStop]) @
           (case connection_w w of None \<Rightarrow> [] | Some h \<Rightarrow> [Close])
       \<and> connect_button_enabled (disconnect_from_adapter w)
       \<and> \<not> disconnect_button_enabled (disconnect_from_adapter w)
       \<and> \<not> start_button_enabled (disconnect_from_adapter w)
       \<and> \<not> stop_button_enabled (disconnect_from_adapter w)
       \<and> status_label_w (disconnect_from_adapter w) = ''Status: Disconnected''
       \<and> vin_label (disconnect_from_adapter w) = ''VIN: N/A''
       \<and> data_label (disconnect_from_adapter w) = ''Data: N/A''"
proof -
  have m: "connected (disconnect_obd tm s) = False
       \<and> connection (disconnect_obd tm s) = None
       \<and> timer (disconnect_obd tm s) = None
       \<and> all_labels ''--'' (disconnect_obd tm s)
       \<and> connect_button (disconnect_obd tm s) = ''Connect''
       \<and> status_label (disconnect_obd tm s) = ''Disconnected''
       \<and> status_style (disconnect_obd tm s) = ''color: red;''
       \<and> (if connection s = None then calls (disconnect_obd tm s) = calls s
           else calls (disconnect_obd tm s) = calls s @ [Close])"
    using assms
    by (auto simp: disconnect_obd_def Let_def log_def all_labels_def reset_labels_all
        split: option.splits)
  have w: "connection_w (disconnect_from_adapter w) = None
       \<and> async_connection (disconnect_from_adapter w) = None
       \<and> connect_button_enabled (disconnect_from_adapter w)
       \<and> \<not> disconnect_button_enabled (disconnect_from_adapter w)
       \<and> \<not> start_button_enabled (disconnect_from_adapter w)
       \<and> \<not> stop_button_enabled (disconnect_from_adapter w)
       \<and> status_label_w (disconnect_from_adapter w) = ''Status: Disconnected''
       \<and> vin_label (disconnect_from_adapter w) = ''VIN: N/A''
       \<and> data_label (disconnect_from_adapter w) = ''Data: N/A''"
    by (auto simp: disconnect_from_adapter_def drop_async_def setCurrentIndex_def Let_def
        split: option.splits)
  have i: "(only_referenced_runs w \<longrightarrow> idle (disconnect_from_adapter w))"
    by (simp add: idle_disconnect_from_adapter)
  show ?thesis
    using m w i disconnect_obd_twice [of tm s] disconnect_from_adapter_twice [of w]
      disconnect_from_adapter_library [of w]
    by presburger
qed

theorem disconnect_twice_witness:
  "timer connected_monitor = Some 1000
   \<and> timer (disconnect_obd tm0 connected_monitor) = None
   \<and> connection (disconnect_obd tm0 connected_monitor) = None
   \<and> calls (disconnect_obd tm0 connected_monitor) = [Open None, Close]
   \<and> calls (disconnect_obd tm0 (disconnect_obd tm0 connected_monitor)) = [Open None, Close]
   \<and> disconnect_from_adapter (disconnect_from_adapter watching_window) =
       disconnect_from_adapter watching_window
   \<and> asyncs (disconnect_from_adapter watching_window) =
       [\<lparr>watching = [Command ''RPM''], running = False\<rparr>]
   \<and> idle (disconnect_from_adapter watching_window)
   \<and> calls_w (disconnect_from_adapter watching_window) =
       [Open (Some ''192.168.0.10:35000''), AsyncStop, Close]
   \<and> calls_w (disconnect_from_adapter (disconnect_from_adapter watching_window)) =
       [Open (Some ''192.168.0.10:35000''), AsyncStop, Close]"
proof -
  have h: "timer connected_monitor = None \<or> connection connected_monitor \<noteq> None"
    by (simp add: connected_monitor_fields)
  have o: "only_referenced_runs watching_window"
    by (simp add: only_referenced_runs_def watching_window_eval)
  note t = disconnect_twice [OF h, of tm0 watching_window]
  have e: "disconnect_obd tm0 (disconnect_obd tm0 connected_monitor) =
      (disconnect_obd tm0 connected_monitor)
        \<lparr>console := console (disconnect_obd tm0 connected_monitor) @
           [''['' @ tm0 (length (console (disconnect_obd tm0 connected_monitor))) @
            ''] Disconnected from vehicle'']\<rparr>"
    using t by blast
  have c: "calls (disconnect_obd tm0 (disconnect_obd tm0 connected_monitor)) =
        calls (disconnect_obd tm0 connected_monitor)"
    by (subst e) simp
  have d: "disconnect_from_adapter (disconnect_from_adapter watching_window) =
       disconnect_from_adapter watching_window"
    using t by blast
  show ?thesis
    using t c o unfolding d
    by (simp add: connected_monitor_fields watching_window_eval stop_async_def)
qed


section \<open>The catalog and the callback on examples\<close>


theorem catalog_never_mutated_witness:
  "catalog (update_metrics tm0 (\<lambda>c. Returns NullResponse) connected_monitor) = metrics_table
   \<and> catalog (disconnect_obd tm0 connected_monitor) = metrics_table
   \<and> catalog (save_metrics tm0 ''20240101_000000'' (\<lambda>f. None) (\<lambda>k. None) connected_monitor) =
       metrics_table"
  using catalog_never_mutated [of tm0 "\<lambda>p. Returns CAR_CONNECTED" "init tm0"]
    catalog_never_mutated [of tm0 "\<lambda>p. Returns CAR_CONNECTED" connected_monitor
      "\<lambda>c. Returns NullResponse" "\<lambda>c. Returns NullResponse" True
      "''20240101_000000''" "\<lambda>f. None" "\<lambda>k. None"]
  by (simp add: connected_monitor_def)

theorem on_data_received_log_witness:
  "data_log
     (callbacks
        [(1, Response (Plain ''725'')), (2, NullResponse),
         (3, Response (Quantity ''730.0'' ''730.0'' ''rpm'' ''730.0 rpm''))]
        running_window) =
     [(1, ''725''), (3, ''730.0 rpm'')]
   \<and> on_data_received 2 NullResponse running_window = running_window"
  using on_data_received_log [of NullResponse 2 running_window
      "[(1, Response (Plain ''725'')), (2, NullResponse),
        (3, Response (Quantity ''730.0'' ''730.0'' ''rpm'' ''730.0 rpm''))]"]
  by (simp add: running_window_eval connected_window_eval)


section \<open>The periodic update\<close>

lemma set_label_fields:
  "connection (set_label n t s) = connection s" "connected (set_label n t s) = connected s"
  "metrics (set_label n t s) = metrics s" "timer (set_label n t s) = timer s"
  "dialogs (set_label n t s) = dialogs s" "calls (set_label n t s) = calls s"
  "files (set_label n t s) = files s" "console (set_label n t s) = console s"
  by (simp_all add: set_label_def)

lemma update_metric_frame:
  "connection (update_metric tm q n c s) = connection s"
  "connected (update_metric tm q n c s) = connected s"
  "timer (update_metric tm q n c s) = timer s"
  "dialogs (update_metric tm q n c s) = dialogs s"
  "files (update_metric tm q n c s) = files s"
  by (simp_all add: update_metric_def Let_def set_label_fields log_fields
        split: outcome.splits option.splits)

lemma update_loop_frame:
  "connection (update_loop tm q ws s) = connection s"
  "connected (update_loop tm q ws s) = connected s"
  "timer (update_loop tm q ws s) = timer s"
  "dialogs (update_loop tm q ws s) = dialogs s"
  "files (update_loop tm q ws s) = files s"
  by (induction ws arbitrary: s) (auto simp: update_metric_frame)

lemma update_metrics_frame:
  "connection (update_metrics tm q s) = connection s"
  "connected (update_metrics tm q s) = connected s"
  "timer (update_metrics tm q s) = timer s"
  "dialogs (update_metrics tm q s) = dialogs s"
  "files (update_metrics tm q s) = files s"
  by (simp_all add: update_metrics_def update_loop_frame)

lemma calls_update_metric:
  "connection s \<noteq> None \<Longrightarrow> calls (update_metric tm q n c s) = calls s @ [Query c]"
  by (auto simp: update_metric_def Let_def set_label_fields log_fields
        split: outcome.splits option.splits)

lemma calls_update_loop:
  "connection s \<noteq> None \<Longrightarrow>
   calls (update_loop tm q ws s) = calls s @ map (\<lambda>(name, data). Query (command data)) ws"
  by (induction ws arbitrary: s) (auto simp: calls_update_metric update_metric_frame)

lemma console_update_metric:
  "connection s \<noteq> None \<Longrightarrow>
   length (console (update_metric tm q n c s)) =
     length (console s) + (if raises (q c) then 1 else 0)"
  by (auto simp: update_metric_def Let_def set_label_fields log_def conn_query_def
        split: outcome.splits option.splits)

lemma console_update_loop:
  "connection s \<noteq> None \<Longrightarrow>
   length (console (update_loop tm q ws s)) =
     length (console s) + length (filter (\<lambda>(name, data). raises (q (command data))) ws)"
  by (induction ws arbitrary: s) (auto simp: console_update_metric update_metric_frame)

lemma widgets_set_label:
  "map_of (metric_widgets (set_label n t s)) n' =
     (if n' = n then map_option (\<lambda>d. d\<lparr>label := t\<rparr>) (map_of (metric_widgets s) n)
      else map_of (metric_widgets s) n')"
  by (simp add: set_label_def map_of_map_entry split: option.splits)

lemma update_metric_connected:
  "connection s \<noteq> None \<Longrightarrow>
   update_metric tm q n c s =
     (case q c of
        Raises e \<Rightarrow>
          set_label n ''ERR''
            (log tm (''Error querying '' @ n @ '': '' @ e) (s\<lparr>calls := calls s @ [Query c]\<rparr>))
      | Returns r \<Rightarrow>
          (case r of
             NullResponse \<Rightarrow> set_label n ''N/A'' (s\<lparr>calls := calls s @ [Query c]\<rparr>)
           | Response v \<Rightarrow>
               set_label n (display_text v)
                 (s\<lparr>calls := calls s @ [Query c], metrics := AList.update n v (metrics s)\<rparr>)))"
  by (auto simp: update_metric_def conn_query_def Let_def
        split: outcome.splits response.splits)

lemma widgets_update_metric:
  assumes "connection s \<noteq> None"
  shows "map_of (metric_widgets (update_metric tm q n c s)) n' =
     (if n' = n then map_option (\<lambda>d. d\<lparr>label := shown (q c)\<rparr>) (map_of (metric_widgets s) n)
      else map_of (metric_widgets s) n')"
proof (cases "q c")
  case (Raises e)
  then show ?thesis
    by (simp add: update_metric_connected [OF assms] widgets_set_label log_fields)
next
  case (Returns r)
  then show ?thesis
    by (cases r) (simp_all add: update_metric_connected [OF assms] widgets_set_label)
qed

lemma widgets_update_loop_other:
  "connection s \<noteq> None \<Longrightarrow> n \<notin> fst ` set ws \<Longrightarrow>
   map_of (metric_widgets (update_loop tm q ws s)) n = map_of (metric_widgets s) n"
  by (induction ws arbitrary: s) (auto simp: widgets_update_metric update_metric_frame)

lemma widgets_update_loop:
  "connection s \<noteq> None \<Longrightarrow> distinct (map fst ws) \<Longrightarrow> (n, d) \<in> set ws \<Longrightarrow>
   map_of (metric_widgets (update_loop tm q ws s)) n =
     map_option (\<lambda>d0. d0\<lparr>label := shown (q (command d))\<rparr>) (map_of (metric_widgets s) n)"
proof (induction ws arbitrary: s)
  case Nil
  then show ?case by simp
next
  case (Cons x ws)
  obtain n' d' where x: "x = (n', d')" by (cases x)
  show ?case
  proof (cases "n' = n")
    case True
    then have d: "d' = d" and out: "n \<notin> fst ` set ws"
      using Cons.prems x by (auto simp: image_iff)
    show ?thesis
      using Cons.prems(1) True d out
      by (simp add: x widgets_update_loop_other update_metric_frame widgets_update_metric)
  next
    case False
    then have "(n, d) \<in> set ws" using Cons.prems x by auto
    then show ?thesis
      using Cons.prems False Cons.IH [of "update_metric tm q n' (command d') s"]
      by (simp add: x update_metric_frame widgets_update_metric)
  qed
qed

lemma metrics_update_metric:
  assumes "connection s \<noteq> None"
  shows "map_of (metrics (update_metric tm q n c s)) n' =
     (if n' = n then stored (q c) (map_of (metrics s) n) else map_of (metrics s) n')"
proof (cases "q c")
  case (Raises e)
  then show ?thesis
    by (simp add: update_metric_connected [OF assms] set_label_fields log_fields)
next
  case (Returns r)
  then show ?thesis
    by (cases r)
       (simp_all add: update_metric_connected [OF assms] set_label_fields update_conv')
qed

lemma metrics_update_loop_other:
  "connection s \<noteq> None \<Longrightarrow> n \<notin> fst ` set ws \<Longrightarrow>
   map_of (metrics (update_loop tm q ws s)) n = map_of (metrics s) n"
  by (induction ws arbitrary: s) (auto simp: metrics_update_metric update_metric_frame)

lemma metrics_update_loop:
  "connection s \<noteq> None \<Longrightarrow> distinct (map fst ws) \<Longrightarrow> (n, d) \<in> set ws \<Longrightarrow>
   map_of (metrics (update_loop tm q ws s)) n = stored (q (command d)) (map_of (metrics s) n)"
proof (induction ws arbitrary: s)
  case Nil
  then show ?case by simp
next
  case (Cons x ws)
  obtain n' d' where x: "x = (n', d')" by (cases x)
  show ?case
  proof (cases "n' = n")
    case True
    then have d: "d' = d" and out: "n \<notin> fst ` set ws"
      using Cons.prems x by (auto simp: image_iff)
    show ?thesis
      using Cons.prems(1) True d out
      by (simp add: x metrics_update_loop_other update_metric_frame metrics_update_metric)
  next
    case False
    then have "(n, d) \<in> set ws" using Cons.prems x by auto
    then show ?thesis
      using Cons.prems False Cons.IH [of "update_metric tm q n' (command d') s"]
      by (simp add: x update_metric_frame metrics_update_metric)
  qed
qed

lemma metrics_keys_update_metric:
  "distinct (map fst (metrics s)) \<Longrightarrow> distinct (map fst (metrics (update_metric tm q n c s)))"
  by (auto simp: update_metric_def Let_def set_label_fields log_fields distinct_update
        split: outcome.splits option.splits)

lemma metrics_keys_update_loop:
  "distinct (map fst (metrics s)) \<Longrightarrow> distinct (map fst (metrics (update_loop tm q ws s)))"
  by (induction ws arbitrary: s) (auto simp: metrics_keys_update_metric)


section \<open>Errors and null responses in the periodic update\<close>


lemma connected_monitor_widgets:
  "metric_widgets connected_monitor =
     [(''RPM'', \<lparr>label = ''--'', command = Command ''RPM''\<rparr>),
      (''Speed'', \<lparr>label = ''--'', command = Command ''SPEED''\<rparr>),
      (''Coolant Temp'', \<lparr>label = ''--'', command = Command ''COOLANT_TEMP''\<rparr>),
      (''Intake Temp'', \<lparr>label = ''--'', command = Command ''INTAKE_TEMP''\<rparr>),
      (''Load'', \<lparr>label = ''--'', command = Command ''ENGINE_LOAD''\<rparr>),
      (''Fuel Level'', \<lparr>label = ''--'', command = Command ''FUEL_LEVEL''\<rparr>),
      (''Throttle Pos'', \<lparr>label = ''--'', command = Command ''THROTTLE_POS''\<rparr>),
      (''Timing Advance'', \<lparr>label = ''--'', command = Command ''TIMING_ADVANCE''\<rparr>)]"
  by (simp add: connected_monitor_def connect_obd_def init_def init_ui_def log_def
        Let_def metrics_table_def)

text \<open>
  Claim C2 as stated (a transport error during a query stops the polling, is reported
  exactly once, and no further query is issued on the broken connection) does not hold of
  \<^verbatim>\<open>update_metrics\<close>: on the connected monitor with a connection on which every query
  raises, one pass leaves the timer running and the monitor connected, shows no message
  box, issues all eight queries and logs eight errors.
\<close>

theorem transport_error_counterexample:
  "timer (update_metrics tm0 lost connected_monitor) = Some 1000
   \<and> connected (update_metrics tm0 lost connected_monitor)
   \<and> dialogs (update_metrics tm0 lost connected_monitor) = []
   \<and> calls (update_metrics tm0 lost connected_monitor) =
       [Open None, Query (Command ''RPM''), Query (Command ''SPEED''),
        Query (Command ''COOLANT_TEMP''), Query (Command ''INTAKE_TEMP''),
        Query (Command ''ENGINE_LOAD''), Query (Command ''FUEL_LEVEL''),
        Query (Command ''THROTTLE_POS''), Query (Command ''TIMING_ADVANCE'')]
   \<and> length (console (update_metrics tm0 lost connected_monitor)) =
       length (console connected_monitor) + 8"
proof -
  have c: "connection connected_monitor \<noteq> None"
    by (simp add: connected_monitor_fields)
  have u: "update_metrics tm0 lost connected_monitor =
      update_loop tm0 lost (metric_widgets connected_monitor) connected_monitor"
    by (simp add: update_metrics_def connected_monitor_fields)
  have calls: "calls (update_metrics tm0 lost connected_monitor) =
       [Open None, Query (Command ''RPM''), Query (Command ''SPEED''),
        Query (Command ''COOLANT_TEMP''), Query (Command ''INTAKE_TEMP''),
        Query (Command ''ENGINE_LOAD''), Query (Command ''FUEL_LEVEL''),
        Query (Command ''THROTTLE_POS''), Query (Command ''TIMING_ADVANCE'')]"
    unfolding u calls_update_loop [OF c]
    by (simp add: connected_monitor_widgets connected_monitor_fields)
  have console: "length (console (update_metrics tm0 lost connected_monitor)) =
       length (console connected_monitor) + 8"
    unfolding u console_update_loop [OF c]
    by (simp add: connected_monitor_widgets lost_def)
  show ?thesis
    using calls console by (simp add: update_metrics_frame connected_monitor_fields)
qed

text \<open>
  Claim C2, amended. An exception raised by a query inside \<^verbatim>\<open>update_metrics\<close>, a
  transport error included, is caught for that metric alone: the metric's label shows
  ERR and one paragraph \<^verbatim>\<open>Error querying <name>: <message>\<close> is logged, one for
  every metric whose query raises. The pass goes on to query every remaining metric, the
  timer keeps running, \<^verbatim>\<open>connected\<close> and \<^verbatim>\<open>connection\<close> are unchanged and no
  message box is shown.
\<close>

theorem query_errors_are_caught:
  assumes "connected s" and "connection s \<noteq> None"
    and "distinct (map fst (metric_widgets s))"
  shows "timer (update_metrics tm q s) = timer s
       \<and> connected (update_metrics tm q s)
       \<and> connection (update_metrics tm q s) = connection s
       \<and> dialogs (update_metrics tm q s) = dialogs s
       \<and> calls (update_metrics tm q s) =
           calls s @ map (\<lambda>(name, data). Query (command data)) (metric_widgets s)
       \<and> length (console (update_metrics tm q s)) =
           length (console s) +
           length (filter (\<lambda>(name, data). raises (q (command data))) (metric_widgets s))
       \<and> list_all
           (\<lambda>(name, data).
              map_of (metric_widgets (update_metrics tm q s)) name =
                Some (data\<lparr>label := shown (q (command data))\<rparr>))
           (metric_widgets s)
       \<and> (if raises (q c) then
             shown (q c) = ''ERR'' \<and>
             console (update_metric tm q name c s) =
               console s @
               [''['' @ tm (length (console s)) @ ''] Error querying '' @ name @ '': '' @
                (case q c of Raises e \<Rightarrow> e | Returns r \<Rightarrow> [])]
           else console (update_metric tm q name c s) = console s)"
proof -
  have widgets: "list_all
           (\<lambda>(name, data).
              map_of (metric_widgets (update_metrics tm q s)) name =
                Some (data\<lparr>label := shown (q (command data))\<rparr>))
           (metric_widgets s)"
    unfolding list_all_iff
  proof (rule ballI)
    fix x assume x: "x \<in> set (metric_widgets s)"
    obtain n d where nd: "x = (n, d)" by (cases x)
    have "map_of (metric_widgets s) n = Some d"
      using x nd assms(3) by simp
    moreover have "map_of (metric_widgets (update_loop tm q (metric_widgets s) s)) n =
        map_option (\<lambda>d0. d0\<lparr>label := shown (q (command d))\<rparr>) (map_of (metric_widgets s) n)"
      using assms(2,3) x unfolding nd by (rule widgets_update_loop)
    ultimately show "case x of (name, data) \<Rightarrow>
              map_of (metric_widgets (update_metrics tm q s)) name =
                Some (data\<lparr>label := shown (q (command data))\<rparr>)"
      using assms(1,2) by (auto simp: update_metrics_def nd)
  qed
  have step: "(if raises (q c) then
             shown (q c) = ''ERR'' \<and>
             console (update_metric tm q name c s) =
               console s @
               [''['' @ tm (length (console s)) @ ''] Error querying '' @ name @ '': '' @
                (case q c of Raises e \<Rightarrow> e | Returns r \<Rightarrow> [])]
           else console (update_metric tm q name c s) = console s)"
    by (cases "q c")
       (simp_all add: update_metric_connected [OF assms(2)] set_label_fields log_def
          split: response.splits)
  show ?thesis
    using assms widgets step
    by (simp add: update_metrics_frame)
       (auto simp: update_metrics_def calls_update_loop console_update_loop)
qed

theorem query_errors_are_caught_witness:
  "timer (update_metrics tm0 sample_query connected_monitor) = Some 1000
   \<and> length (console (update_metrics tm0 sample_query connected_monitor)) = 4
   \<and> map_of (metric_widgets (update_metrics tm0 sample_query connected_monitor)) ''Coolant Temp'' =
       Some \<lparr>label = ''ERR'', command = Command ''COOLANT_TEMP''\<rparr>
   \<and> map_of (metric_widgets (update_metrics tm0 sample_query connected_monitor)) ''RPM'' =
       Some \<lparr>label = ''725.0 rpm'', command = Command ''RPM''\<rparr>"
proof -
  have h: "connected connected_monitor" "connection connected_monitor \<noteq> None"
    "distinct (map fst (metric_widgets connected_monitor))"
    by (simp_all add: connected_monitor_fields metrics_table_def)
  show ?thesis
    using query_errors_are_caught [OF h, of tm0 sample_query "Command ''COOLANT_TEMP''"
        "''Coolant Temp''"]
    by (simp add: connected_monitor_fields connected_monitor_widgets sample_query_def
        display_text_def)
qed

text \<open>
  Claim C4. A query whose reply cannot be decoded results in a response whose
  \<^verbatim>\<open>is_null\<close> holds, not in a raised exception (the Query Engine of the spec), and the
  monitor treats such a response as a recoverable non-failure: after the pass of
  \<^verbatim>\<open>update_metrics\<close> over that Query Engine the label of the metric shows N/A, not an
  error, nothing is stored for it, the iteration for it logs nothing, no message box is
  shown, and the connection is not torn down: \<^verbatim>\<open>connection\<close>, \<^verbatim>\<open>connected\<close> and
  the timer are as before.
\<close>

theorem null_response_not_available:
  assumes "connected s" and "connection s \<noteq> None"
    and "distinct (map fst (metric_widgets s))"
    and "(name, data) \<in> set (metric_widgets s)"
    and "read_frame (command data) = Frame raw"
    and "decode (command data) raw = None"
  shows "query read_frame decode (command data) = Returns NullResponse
       \<and> \<not> raises (query read_frame decode (command data))
       \<and> map_of (metric_widgets (update_metrics tm (query read_frame decode) s)) name =
           Some (data\<lparr>label := ''N/A''\<rparr>)
       \<and> map_of (metrics (update_metrics tm (query read_frame decode) s)) name =
           map_of (metrics s) name
       \<and> connection (update_metrics tm (query read_frame decode) s) = connection s
       \<and> connected (update_metrics tm (query read_frame decode) s)
       \<and> timer (update_metrics tm (query read_frame decode) s) = timer s
       \<and> dialogs (update_metrics tm (query read_frame decode) s) = dialogs s
       \<and> update_metric tm (query read_frame decode) name (command data) s =
           set_label name ''N/A'' (s\<lparr>calls := calls s @ [Query (command data)]\<rparr>)
       \<and> console (update_metric tm (query read_frame decode) name (command data) s) = console s"
proof -
  let ?q = "query read_frame decode"
  have r: "?q (command data) = Returns NullResponse"
    using assms(5,6) by (simp add: query_def)
  have u: "update_metrics tm ?q s = update_loop tm ?q (metric_widgets s) s"
    using assms(1,2) by (auto simp: update_metrics_def)
  have d: "map_of (metric_widgets s) name = Some data"
    using assms(3,4) by simp
  have w: "map_of (metric_widgets (update_metrics tm ?q s)) name = Some (data\<lparr>label := ''N/A''\<rparr>)"
    unfolding u using widgets_update_loop [OF assms(2,3,4), of tm ?q] d r by simp
  have m: "map_of (metrics (update_metrics tm ?q s)) name = map_of (metrics s) name"
    unfolding u using metrics_update_loop [OF assms(2,3,4), of tm ?q] r by simp
  have step: "update_metric tm ?q name (command data) s =
           set_label name ''N/A'' (s\<lparr>calls := calls s @ [Query (command data)]\<rparr>)"
    using r by (simp add: update_metric_connected [OF assms(2)])
  show ?thesis
    using r w m step assms(1) by (simp add: update_metrics_frame set_label_fields)
qed

theorem null_response_not_available_witness:
  "query sample_read_frame sample_decode (Command ''INTAKE_TEMP'') = Returns NullResponse
   \<and> map_of (metric_widgets
        (update_metrics tm0 (query sample_read_frame sample_decode) connected_monitor))
       ''Intake Temp'' =
     Some \<lparr>label = ''N/A'', command = Command ''INTAKE_TEMP''\<rparr>
   \<and> map_of (metrics
        (update_metrics tm0 (query sample_read_frame sample_decode) connected_monitor))
       ''Intake Temp'' = None
   \<and> connection (update_metrics tm0 (query sample_read_frame sample_decode) connected_monitor) =
       Some \<lparr>portstr = None, status = CAR_CONNECTED\<rparr>"
proof -
  have h: "connected connected_monitor" "connection connected_monitor \<noteq> None"
    "distinct (map fst (metric_widgets connected_monitor))"
    "(''Intake Temp'', \<lparr>label = ''--'', command = Command ''INTAKE_TEMP''\<rparr>)
       \<in> set (metric_widgets connected_monitor)"
    "sample_read_frame (command \<lparr>label = ''--'', command = Command ''INTAKE_TEMP''\<rparr>) =
       Frame [0x41]"
    "sample_decode (command \<lparr>label = ''--'', command = Command ''INTAKE_TEMP''\<rparr>) [0x41] = None"
    by (simp_all add: connected_monitor_fields connected_monitor_widgets
        sample_read_frame_def sample_decode_def)
  show ?thesis
    using null_response_not_available
      [where s = connected_monitor and read_frame = sample_read_frame
         and decode = sample_decode and tm = tm0 and raw = "[0x41]"
         and name = "''Intake Temp''"
         and data = "\<lparr>label = ''--'', command = Command ''INTAKE_TEMP''\<rparr>", OF h]
    by (simp add: connected_monitor_fields)
qed


section \<open>Saving the metrics\<close>







end
